theory Spec2Isabelle
  imports Main
begin

section \<open>Values shared by the model\<close>

text \<open>
  The authentication core of the blog backend: the user schema with its hooks and
  methods (\<^verbatim>\<open>models/User.js\<close>), the three middlewares \<^verbatim>\<open>auth\<close>,
  \<^verbatim>\<open>optionalAuth\<close> and \<^verbatim>\<open>verifyRefreshToken\<close>, and the handler of
  \<^verbatim>\<open>PUT /api/users/:id/status\<close>.

  Clock readings are natural numbers of whole seconds, the resolution at which the
  token library stamps and checks tokens; \<^verbatim>\<open>Date\<close> values are kept at that
  resolution. An ObjectId is named by a string. A value that reaches a query as an id (the
  id claim of a token, the id parameter of a route) either casts to an ObjectId or does
  not: \<open>ObjectId i\<close> is a value that casts to \<open>i\<close>, \<open>NotObjectId raw\<close> one that does not
  cast, on which the query throws \<^verbatim>\<open>CastError\<close>. A thrown JavaScript error is a value
  carrying the two properties the handlers read or write, its \<^verbatim>\<open>name\<close> and its
  \<^verbatim>\<open>message\<close>.
\<close>

type_synonym object_id = string

datatype id_value = ObjectId object_id | NotObjectId string

datatype js_error = JsError (error_name: string) (error_message: string)

subsection \<open>The user schema\<close>

text \<open>
  One record serves for a stored user and for what a query loads. \<open>password\<close> and
  \<open>refreshTokens\<close> are optional: \<open>None\<close> is JavaScript's \<^verbatim>\<open>undefined\<close>, the value
  of a path that the projection of a query left out. \<open>uid\<close> is the path \<^verbatim>\<open>_id\<close>.
  A \<open>document\<close> is a hydrated mongoose document: the loaded values together with the
  paths assigned since loading, which is what \<^verbatim>\<open>isModified\<close> reads and what
  \<^verbatim>\<open>save\<close> writes back. Schema validators and the \<^verbatim>\<open>timestamps\<close> option
  are not part of the model.
\<close>

record refresh_entry =
  token :: string
  createdAt :: nat

record user =
  uid :: object_id
  name :: string
  email :: string
  password :: "string option"
  role :: string
  avatar :: string
  bio :: string
  isActive :: bool
  lastLogin :: nat
  refreshTokens :: "refresh_entry list option"

record document = user +
  modifiedPaths :: "string list"

type_synonym collection = "user list"

definition hydrate :: "user \<Rightarrow> document" where
  "hydrate u =
     \<lparr>uid = uid u, name = name u, email = email u, password = password u, role = role u,
      avatar = avatar u, bio = bio u, isActive = isActive u, lastLogin = lastLogin u,
      refreshTokens = refreshTokens u, modifiedPaths = []\<rparr>"

definition isModified :: "string \<Rightarrow> document \<Rightarrow> bool" where
  "isModified path d = (path \<in> set (modifiedPaths d))"

definition markModified :: "string \<Rightarrow> document \<Rightarrow> document" where
  "markModified path d =
     (if isModified path d then d else d\<lparr>modifiedPaths := modifiedPaths d @ [path]\<rparr>)"

subsection \<open>Queries\<close>

text \<open>
  The collection is the list of stored users in natural order. \<^verbatim>\<open>findById\<close> and
  \<^verbatim>\<open>findOne\<close> return the first match; \<^verbatim>\<open>findById\<close> throws \<^verbatim>\<open>CastError\<close>
  on a value that does not cast to an ObjectId. The schema declares \<^verbatim>\<open>select: false\<close>
  on the password, so a query loads it only when asked with \<^verbatim>\<open>+password\<close>. The
  email of a filter is the value after mongoose has cast it for the query.
\<close>

definition findById :: "collection \<Rightarrow> id_value \<Rightarrow> js_error + document option" where
  "findById db v =
     (case v of
        NotObjectId raw \<Rightarrow> Inl (JsError ''CastError'' ''Cast to ObjectId failed'')
      | ObjectId i \<Rightarrow>
          Inr (map_option (\<lambda>u. (hydrate u)\<lparr>password := None\<rparr>) (find (\<lambda>u. uid u = i) db)))"

definition select_minus_password_refreshTokens :: "document \<Rightarrow> document" where
  "select_minus_password_refreshTokens d = d\<lparr>password := None, refreshTokens := None\<rparr>"

definition findOne_email_active_plus_password :: "collection \<Rightarrow> string \<Rightarrow> document option" where
  "findOne_email_active_plus_password db em =
     map_option hydrate (find (\<lambda>u. email u = em \<and> isActive u) db)"

subsection \<open>The libraries the code calls\<close>

text \<open>
  \<^verbatim>\<open>jsonwebtoken\<close> and \<^verbatim>\<open>bcryptjs\<close> are not code of this repository. The
  functions below take them as arguments. \<open>jwt_sign payload secret expiresIn clock\<close> and
  \<open>jwt_verify token secret clock\<close> stand for \<^verbatim>\<open>jwt.sign\<close> and \<^verbatim>\<open>jwt.verify\<close>
  called when the clock reads \<open>clock\<close>; the secret is optional because an unset
  environment variable reads as \<^verbatim>\<open>undefined\<close>. An \<^verbatim>\<open>expiresIn\<close> string is
  represented by the number of seconds it denotes.
\<close>

record payload =
  claim_id :: id_value
  claim_email :: "string option"
  claim_role :: "string option"

record decoded = payload +
  iat :: nat
  exp :: nat

record jwt_lib =
  jwt_sign :: "payload \<Rightarrow> string option \<Rightarrow> nat \<Rightarrow> nat \<Rightarrow> js_error + string"
  jwt_verify :: "string \<Rightarrow> string option \<Rightarrow> nat \<Rightarrow> js_error + decoded"

record bcrypt_lib =
  bcrypt_genSalt :: "nat \<Rightarrow> js_error + string"
  bcrypt_hash :: "string \<Rightarrow> string \<Rightarrow> js_error + string"
  bcrypt_compare :: "string \<Rightarrow> string \<Rightarrow> bool"

record env =
  JWT_SECRET :: "string option"
  JWT_EXPIRE :: "nat option"

definition seven_days :: nat where
  "seven_days = 604800"

text \<open>
  \<^verbatim>\<open>process.env.JWT_SECRET + 'refresh'\<close>: string concatenation turns
  \<^verbatim>\<open>undefined\<close> into the text \<^verbatim>\<open>undefined\<close>.
\<close>

definition refresh_secret :: "env \<Rightarrow> string" where
  "refresh_secret e = (case JWT_SECRET e of None \<Rightarrow> ''undefined'' | Some s \<Rightarrow> s) @ ''refresh''"

section \<open>models/User.js\<close>

subsection \<open>The pre-save hook and save\<close>

definition pre_save :: "bcrypt_lib \<Rightarrow> document \<Rightarrow> js_error + document" where
  "pre_save B d =
     (if \<not> isModified ''password'' d then Inr d
      else case bcrypt_genSalt B 12 of
             Inl e \<Rightarrow> Inl e
           | Inr salt \<Rightarrow>
               (case password d of
                  None \<Rightarrow> Inl (JsError ''Error'' ''Illegal arguments: undefined, string'')
                | Some plain \<Rightarrow>
                    (case bcrypt_hash B plain salt of
                       Inl e \<Rightarrow> Inl e
                     | Inr h \<Rightarrow> Inr (d\<lparr>password := Some h\<rparr>))))"

text \<open>
  Saving a loaded document writes the modified paths, and only those, to the stored
  user with the document's id.
\<close>

definition apply_delta :: "document \<Rightarrow> user \<Rightarrow> user" where
  "apply_delta d s =
     \<lparr>uid = uid s,
      name = (if isModified ''name'' d then name d else name s),
      email = (if isModified ''email'' d then email d else email s),
      password = (if isModified ''password'' d then password d else password s),
      role = (if isModified ''role'' d then role d else role s),
      avatar = (if isModified ''avatar'' d then avatar d else avatar s),
      bio = (if isModified ''bio'' d then bio d else bio s),
      isActive = (if isModified ''isActive'' d then isActive d else isActive s),
      lastLogin = (if isModified ''lastLogin'' d then lastLogin d else lastLogin s),
      refreshTokens =
        (if isModified ''refreshTokens'' d then refreshTokens d else refreshTokens s)\<rparr>"

fun updateOne :: "object_id \<Rightarrow> (user \<Rightarrow> user) \<Rightarrow> collection \<Rightarrow> collection option" where
  "updateOne i f [] = None"
| "updateOne i f (u # us) =
     (if uid u = i then Some (f u # us) else map_option ((#) u) (updateOne i f us))"

definition save :: "bcrypt_lib \<Rightarrow> collection \<Rightarrow> document \<Rightarrow> js_error + collection \<times> document" where
  "save B db d =
     (case pre_save B d of
        Inl e \<Rightarrow> Inl e
      | Inr d' \<Rightarrow>
          (case updateOne (uid d') (apply_delta d') db of
             None \<Rightarrow> Inl (JsError ''DocumentNotFoundError'' ''No document found'')
           | Some db' \<Rightarrow> Inr (db', d'\<lparr>modifiedPaths := []\<rparr>)))"

subsection \<open>Instance methods\<close>

definition comparePassword :: "bcrypt_lib \<Rightarrow> document \<Rightarrow> string \<Rightarrow> js_error + bool" where
  "comparePassword B d candidatePassword =
     (case password d of
        None \<Rightarrow> Inl (JsError ''Error'' ''Illegal arguments: string, undefined'')
      | Some h \<Rightarrow> Inr (bcrypt_compare B candidatePassword h))"

definition generateAuthToken :: "jwt_lib \<Rightarrow> env \<Rightarrow> nat \<Rightarrow> document \<Rightarrow> js_error + string" where
  "generateAuthToken J e now d =
     jwt_sign J
       \<lparr>claim_id = ObjectId (uid d), claim_email = Some (email d), claim_role = Some (role d)\<rparr>
       (JWT_SECRET e)
       (case JWT_EXPIRE e of None \<Rightarrow> seven_days | Some t \<Rightarrow> t)
       now"

definition generateRefreshToken ::
  "jwt_lib \<Rightarrow> env \<Rightarrow> nat \<Rightarrow> document \<Rightarrow> js_error + string \<times> document" where
  "generateRefreshToken J e now d =
     (case jwt_sign J \<lparr>claim_id = ObjectId (uid d), claim_email = None, claim_role = None\<rparr>
             (Some (refresh_secret e)) seven_days now of
        Inl err \<Rightarrow> Inl err
      | Inr refreshToken \<Rightarrow>
          (case refreshTokens d of
             None \<Rightarrow> Inl (JsError ''TypeError'' ''Cannot read properties of undefined'')
           | Some ts \<Rightarrow>
               Inr (refreshToken,
                    markModified ''refreshTokens''
                      (d\<lparr>refreshTokens :=
                           Some (ts @ [\<lparr>token = refreshToken, createdAt = now\<rparr>])\<rparr>))))"

definition removeRefreshToken :: "string \<Rightarrow> document \<Rightarrow> js_error + document" where
  "removeRefreshToken tokenToRemove d =
     (case refreshTokens d of
        None \<Rightarrow> Inl (JsError ''TypeError'' ''Cannot read properties of undefined'')
      | Some ts \<Rightarrow>
          (let ts' = filter (\<lambda>tokenObj. token tokenObj \<noteq> tokenToRemove) ts
           in Inr (if ts' = ts then d
                   else markModified ''refreshTokens'' (d\<lparr>refreshTokens := Some ts'\<rparr>))))"

subsection \<open>The static method findByCredentials\<close>

definition invalid_login :: js_error where
  "invalid_login = JsError ''Error'' ''Invalid login credentials''"

definition findByCredentials ::
  "bcrypt_lib \<Rightarrow> collection \<Rightarrow> nat \<Rightarrow> string \<Rightarrow> string \<Rightarrow> js_error + document \<times> collection" where
  "findByCredentials B db now em pw =
     (case findOne_email_active_plus_password db em of
        None \<Rightarrow> Inl invalid_login
      | Some u \<Rightarrow>
          (case comparePassword B u pw of
             Inl e \<Rightarrow> Inl e
           | Inr isMatch \<Rightarrow>
               if \<not> isMatch then Inl invalid_login
               else
                 (let u' = (if lastLogin u = now then u
                            else markModified ''lastLogin'' (u\<lparr>lastLogin := now\<rparr>))
                  in case save B db u' of
                       Inl e \<Rightarrow> Inl e
                     | Inr (db', saved) \<Rightarrow> Inr (saved, db'))))"

definition toJSON :: "document \<Rightarrow> user" where
  "toJSON d =
     \<lparr>uid = uid d, name = name d, email = email d, password = None, role = role d,
      avatar = avatar d, bio = bio d, isActive = isActive d, lastLogin = lastLogin d,
      refreshTokens = None\<rparr>"

section \<open>The middlewares\<close>

text \<open>
  A request carries what the middlewares read (the \<^verbatim>\<open>Authorization\<close> header, the
  body field \<^verbatim>\<open>refreshToken\<close>, and for the status route the id parameter and the
  body field \<^verbatim>\<open>isActive\<close>, which is \<open>None\<close> when it is not a boolean) and what they
  attach (\<^verbatim>\<open>req.user\<close>, \<^verbatim>\<open>req.refreshToken\<close>). A middleware either answers
  with a response or calls \<^verbatim>\<open>next()\<close> on the request.
\<close>

record request =
  header_Authorization :: "string option"
  body_refreshToken :: "string option"
  params_id :: id_value
  body_isActive :: "bool option"
  req_user :: "document option"
  req_refreshToken :: "string option"

record response =
  status :: nat
  success :: bool
  message :: string
  data_user :: "user option"

datatype outcome = Responded response | Next request

definition deny :: "nat \<Rightarrow> string \<Rightarrow> outcome" where
  "deny code msg = Responded \<lparr>status = code, success = False, message = msg, data_user = None\<rparr>"

definition startsWith :: "string \<Rightarrow> string \<Rightarrow> bool" where
  "startsWith s p = (take (length p) s = p)"

definition substring :: "string \<Rightarrow> nat \<Rightarrow> string" where
  "substring s n = drop n s"

text \<open>The \<^verbatim>\<open>catch\<close> block of \<open>auth\<close>, which receives whatever the \<^verbatim>\<open>try\<close> block throws.\<close>

definition auth_catch :: "js_error \<Rightarrow> outcome" where
  "auth_catch error =
     (if error_name error = ''JsonWebTokenError'' then deny 401 ''Invalid token''
      else if error_name error = ''TokenExpiredError'' then deny 401 ''Token expired''
      else deny 500 ''Server error during authentication'')"

definition auth :: "jwt_lib \<Rightarrow> env \<Rightarrow> collection \<Rightarrow> nat \<Rightarrow> request \<Rightarrow> outcome" where
  "auth J e db now req =
     (case header_Authorization req of
        None \<Rightarrow> deny 401 ''No token provided, authorization denied''
      | Some authHeader \<Rightarrow>
          if authHeader = [] \<or> \<not> startsWith authHeader ''Bearer ''
          then deny 401 ''No token provided, authorization denied''
          else
            (let tok = substring authHeader 7 in
             if tok = [] then deny 401 ''No token provided, authorization denied''
             else
               (case jwt_verify J tok (JWT_SECRET e) now of
                  Inl error \<Rightarrow> auth_catch error
                | Inr dec \<Rightarrow>
                    (case findById db (claim_id dec) of
                       Inl error \<Rightarrow> auth_catch error
                     | Inr found \<Rightarrow>
                         (case map_option select_minus_password_refreshTokens found of
                            None \<Rightarrow> deny 401 ''Token is not valid - user not found''
                          | Some u \<Rightarrow>
                              if \<not> isActive u then deny 401 ''User account is deactivated''
                              else Next (req\<lparr>req_user := Some u\<rparr>))))))"

definition adminAuth :: "request \<Rightarrow> outcome" where
  "adminAuth req =
     (case req_user req of
        None \<Rightarrow> deny 403 ''Access denied. Admin privileges required.''
      | Some u \<Rightarrow>
          if role u = ''admin'' then Next req
          else deny 403 ''Access denied. Admin privileges required.'')"

definition optionalAuth :: "jwt_lib \<Rightarrow> env \<Rightarrow> collection \<Rightarrow> nat \<Rightarrow> request \<Rightarrow> outcome" where
  "optionalAuth J e db now req =
     (case header_Authorization req of
        None \<Rightarrow> Next req
      | Some authHeader \<Rightarrow>
          if authHeader \<noteq> [] \<and> startsWith authHeader ''Bearer ''
          then
            (let tok = substring authHeader 7 in
             if tok \<noteq> [] then
               (case jwt_verify J tok (JWT_SECRET e) now of
                  Inl error \<Rightarrow> Next req
                | Inr dec \<Rightarrow>
                    (case findById db (claim_id dec) of
                       Inl error \<Rightarrow> Next req
                     | Inr found \<Rightarrow>
                         (case map_option select_minus_password_refreshTokens found of
                            None \<Rightarrow> Next req
                          | Some u \<Rightarrow>
                              if isActive u then Next (req\<lparr>req_user := Some u\<rparr>)
                              else Next req)))
             else Next req)
          else Next req)"

definition verifyRefreshToken_catch :: "js_error \<Rightarrow> outcome" where
  "verifyRefreshToken_catch error =
     (if error_name error = ''JsonWebTokenError'' \<or> error_name error = ''TokenExpiredError''
      then deny 401 ''Invalid or expired refresh token''
      else deny 500 ''Server error during refresh token verification'')"

definition verifyRefreshToken :: "jwt_lib \<Rightarrow> env \<Rightarrow> collection \<Rightarrow> nat \<Rightarrow> request \<Rightarrow> outcome" where
  "verifyRefreshToken J e db now req =
     (case body_refreshToken req of
        None \<Rightarrow> deny 401 ''Refresh token is required''
      | Some refreshToken \<Rightarrow>
          if refreshToken = [] then deny 401 ''Refresh token is required''
          else
            (case jwt_verify J refreshToken (Some (refresh_secret e)) now of
               Inl error \<Rightarrow> verifyRefreshToken_catch error
             | Inr dec \<Rightarrow>
                 (case findById db (claim_id dec) of
                    Inl error \<Rightarrow> verifyRefreshToken_catch error
                  | Inr None \<Rightarrow> deny 401 ''Invalid refresh token - user not found''
                  | Inr (Some u) \<Rightarrow>
                      (case refreshTokens u of
                         None \<Rightarrow>
                           verifyRefreshToken_catch
                             (JsError ''TypeError'' ''Cannot read properties of undefined'')
                       | Some ts \<Rightarrow>
                           (let tokenExists = list_ex (\<lambda>tokenObj. token tokenObj = refreshToken) ts
                            in if \<not> tokenExists then deny 401 ''Invalid refresh token''
                               else Next (req\<lparr>req_user := Some u,
                                              req_refreshToken := Some refreshToken\<rparr>))))))"

section \<open>routes/users.js: PUT /:id/status\<close>

text \<open>
  The handler runs behind \<open>auth\<close> and \<open>adminAuth\<close>, so it reads \<^verbatim>\<open>req.user\<close>; a
  request without one makes the read of \<^verbatim>\<open>req.user._id\<close> throw. Whatever the
  \<^verbatim>\<open>try\<close> block throws goes to the handler's \<^verbatim>\<open>catch\<close>, which answers 404 to a
  \<^verbatim>\<open>CastError\<close> and 500 to anything else. The handler returns the answer and the
  collection it leaves.
\<close>

definition put_status_catch :: "js_error \<Rightarrow> response" where
  "put_status_catch error =
     (if error_name error = ''CastError'' then
        \<lparr>status = 404, success = False, message = ''User not found'', data_user = None\<rparr>
      else
        \<lparr>status = 500, success = False,
          message = ''Server error while updating user status'', data_user = None\<rparr>)"

definition put_status_handler ::
  "bcrypt_lib \<Rightarrow> collection \<Rightarrow> request \<Rightarrow> response \<times> collection" where
  "put_status_handler B db req =
     (case body_isActive req of
        None \<Rightarrow>
          (\<lparr>status = 400, success = False, message = ''isActive must be a boolean value'',
            data_user = None\<rparr>, db)
      | Some newActive \<Rightarrow>
          (case findById db (params_id req) of
             Inl error \<Rightarrow> (put_status_catch error, db)
           | Inr None \<Rightarrow>
               (\<lparr>status = 404, success = False, message = ''User not found'',
                 data_user = None\<rparr>, db)
           | Inr (Some u) \<Rightarrow>
               (case req_user req of
                  None \<Rightarrow>
                    (put_status_catch
                       (JsError ''TypeError'' ''Cannot read properties of undefined''), db)
                | Some me \<Rightarrow>
                    if uid u = uid me then
                      (\<lparr>status = 400, success = False,
                        message = ''You cannot change your own status'', data_user = None\<rparr>, db)
                    else
                      (let u1 = (if isActive u = newActive then u
                                 else markModified ''isActive'' (u\<lparr>isActive := newActive\<rparr>));
                           u2 = (if \<not> newActive
                                 then (if refreshTokens u1 = Some [] then u1
                                       else markModified ''refreshTokens''
                                              (u1\<lparr>refreshTokens := Some []\<rparr>))
                                 else u1)
                       in case save B db u2 of
                            Inl error \<Rightarrow> (put_status_catch error, db)
                          | Inr (db', saved) \<Rightarrow>
                              (\<lparr>status = 200, success = True,
                                message = ''User '' @ (if newActive then ''activated''
                                                       else ''deactivated'') @ '' successfully'',
                                data_user = Some (toJSON saved)\<rparr>, db')))))"

definition put_status ::
  "jwt_lib \<Rightarrow> bcrypt_lib \<Rightarrow> env \<Rightarrow> collection \<Rightarrow> nat \<Rightarrow> request \<Rightarrow> response \<times> collection" where
  "put_status J B e db now req =
     (case auth J e db now req of
        Responded r \<Rightarrow> (r, db)
      | Next req1 \<Rightarrow>
          (case adminAuth req1 of
             Responded r \<Rightarrow> (r, db)
           | Next req2 \<Rightarrow> put_status_handler B db req2))"

section \<open>What the code relies on from the token library\<close>

text \<open>
  The contract of \<^verbatim>\<open>jwt.sign\<close> and \<^verbatim>\<open>jwt.verify\<close> that the properties below
  assume: signing with a non-empty secret yields a non-empty token; verifying that token
  with the same secret returns the signed payload, stamped with the signing time and the
  expiry, as long as the clock is before the expiry, and throws
  \<^verbatim>\<open>TokenExpiredError\<close> from the expiry on.
\<close>

definition stamp :: "payload \<Rightarrow> nat \<Rightarrow> nat \<Rightarrow> decoded" where
  "stamp p i x =
     \<lparr>claim_id = claim_id p, claim_email = claim_email p, claim_role = claim_role p,
      iat = i, exp = x\<rparr>"

definition jwt_contract :: "jwt_lib \<Rightarrow> bool" where
  "jwt_contract J =
     (\<forall>p k ttl t0. k \<noteq> [] \<longrightarrow>
        (\<exists>tok. jwt_sign J p (Some k) ttl t0 = Inr tok \<and> tok \<noteq> [] \<and>
           (\<forall>now. (now < t0 + ttl \<longrightarrow> jwt_verify J tok (Some k) now = Inr (stamp p t0 (t0 + ttl))) \<and>
                  (t0 + ttl \<le> now \<longrightarrow>
                     (\<exists>msg. jwt_verify J tok (Some k) now = Inl (JsError ''TokenExpiredError'' msg))))))"

section \<open>A small instance of the libraries\<close>

text \<open>
  An executable instance of the two library interfaces, used to evaluate the code at
  concrete inputs. Its token is the tagged, length-prefixed payload and the two time stamps
  followed by the key itself: it has the functional behaviour of signed tokens (a token
  verifies only under the key it was made with, and only before its expiry) and none of
  their secrecy. Its password hash is the salt followed by the plain text.
\<close>

fun demo_enc_nat :: "nat \<Rightarrow> string" where
  "demo_enc_nat n =
     (if n = 0 then ''.''
      else (if even n then CHR ''0'' else CHR ''1'') # demo_enc_nat (n div 2))"

declare demo_enc_nat.simps [simp del]

fun demo_dec_nat :: "string \<Rightarrow> (nat \<times> string) option" where
  "demo_dec_nat [] = None"
| "demo_dec_nat (c # cs) =
     (if c = CHR ''.'' then Some (0, cs)
      else if c = CHR ''0'' then map_option (\<lambda>(n, r). (2 * n, r)) (demo_dec_nat cs)
      else if c = CHR ''1'' then map_option (\<lambda>(n, r). (2 * n + 1, r)) (demo_dec_nat cs)
      else None)"

definition demo_enc_str :: "string \<Rightarrow> string" where
  "demo_enc_str s = demo_enc_nat (length s) @ s"

definition demo_dec_str :: "string \<Rightarrow> (string \<times> string) option" where
  "demo_dec_str cs =
     (case demo_dec_nat cs of
        None \<Rightarrow> None
      | Some (n, r) \<Rightarrow> if length r < n then None else Some (take n r, drop n r))"

definition demo_enc_opt :: "string option \<Rightarrow> string" where
  "demo_enc_opt x = (case x of None \<Rightarrow> ''-'' | Some s \<Rightarrow> CHR ''+'' # demo_enc_str s)"

definition demo_dec_opt :: "string \<Rightarrow> (string option \<times> string) option" where
  "demo_dec_opt cs =
     (case cs of
        [] \<Rightarrow> None
      | c # r \<Rightarrow>
          if c = CHR ''-'' then Some (None, r)
          else if c = CHR ''+'' then map_option (\<lambda>(s, r'). (Some s, r')) (demo_dec_str r)
          else None)"

definition demo_enc_id :: "id_value \<Rightarrow> string" where
  "demo_enc_id v =
     (case v of ObjectId i \<Rightarrow> CHR ''o'' # demo_enc_str i
              | NotObjectId raw \<Rightarrow> CHR ''x'' # demo_enc_str raw)"

definition demo_dec_id :: "string \<Rightarrow> (id_value \<times> string) option" where
  "demo_dec_id cs =
     (case cs of
        [] \<Rightarrow> None
      | c # r \<Rightarrow>
          if c = CHR ''o'' then map_option (\<lambda>(s, r'). (ObjectId s, r')) (demo_dec_str r)
          else if c = CHR ''x'' then map_option (\<lambda>(s, r'). (NotObjectId s, r')) (demo_dec_str r)
          else None)"

definition demo_parse :: "string \<Rightarrow> (decoded \<times> string) option" where
  "demo_parse cs =
     (case demo_dec_id cs of None \<Rightarrow> None | Some (i, r1) \<Rightarrow>
      case demo_dec_opt r1 of None \<Rightarrow> None | Some (em, r2) \<Rightarrow>
      case demo_dec_opt r2 of None \<Rightarrow> None | Some (ro, r3) \<Rightarrow>
      case demo_dec_nat r3 of None \<Rightarrow> None | Some (t0, r4) \<Rightarrow>
      case demo_dec_nat r4 of None \<Rightarrow> None | Some (t1, sig) \<Rightarrow>
        Some (\<lparr>claim_id = i, claim_email = em, claim_role = ro, iat = t0, exp = t1\<rparr>, sig))"

definition demo_token :: "payload \<Rightarrow> string \<Rightarrow> nat \<Rightarrow> nat \<Rightarrow> string" where
  "demo_token p k issued expiry =
     demo_enc_id (claim_id p) @ demo_enc_opt (claim_email p) @ demo_enc_opt (claim_role p)
     @ demo_enc_nat issued @ demo_enc_nat expiry @ k"

definition demo_sign :: "payload \<Rightarrow> string option \<Rightarrow> nat \<Rightarrow> nat \<Rightarrow> js_error + string" where
  "demo_sign p key ttl clock =
     (case key of
        None \<Rightarrow> Inl (JsError ''Error'' ''secretOrPrivateKey must have a value'')
      | Some k \<Rightarrow>
          if k = [] then Inl (JsError ''Error'' ''secretOrPrivateKey must have a value'')
          else Inr (demo_token p k clock (clock + ttl)))"

definition demo_verify :: "string \<Rightarrow> string option \<Rightarrow> nat \<Rightarrow> js_error + decoded" where
  "demo_verify tok key clock =
     (if tok = [] then Inl (JsError ''JsonWebTokenError'' ''jwt must be provided'')
      else case demo_parse tok of
             None \<Rightarrow> Inl (JsError ''JsonWebTokenError'' ''jwt malformed'')
           | Some (dec, sig) \<Rightarrow>
               (case key of
                  None \<Rightarrow> Inl (JsError ''JsonWebTokenError'' ''secret or public key must be provided'')
                | Some k \<Rightarrow>
                    if sig \<noteq> k \<or> k = [] then Inl (JsError ''JsonWebTokenError'' ''invalid signature'')
                    else if exp dec \<le> clock then Inl (JsError ''TokenExpiredError'' ''jwt expired'')
                    else Inr dec))"

definition demo_jwt :: jwt_lib where
  "demo_jwt = \<lparr>jwt_sign = demo_sign, jwt_verify = demo_verify\<rparr>"

definition demo_bcrypt :: bcrypt_lib where
  "demo_bcrypt =
     \<lparr>bcrypt_genSalt = (\<lambda>rounds. Inr ''$2a$12$salt''),
      bcrypt_hash = (\<lambda>plain salt. Inr (salt @ plain)),
      bcrypt_compare = (\<lambda>plain h. h = ''$2a$12$salt'' @ plain)\<rparr>"

subsection \<open>Sample data\<close>

definition env0 :: env where
  "env0 = \<lparr>JWT_SECRET = Some ''s3cret'', JWT_EXPIRE = None\<rparr>"

definition request0 :: request where
  "request0 =
     \<lparr>header_Authorization = None, body_refreshToken = None, params_id = NotObjectId [],
      body_isActive = None, req_user = None, req_refreshToken = None\<rparr>"

definition admin0 :: user where
  "admin0 =
     \<lparr>uid = ''a1'', name = ''Admin User'', email = ''admin@blogsite.com'',
      password = Some ''$2a$12$saltAdmin123!'', role = ''admin'', avatar = [], bio = [],
      isActive = True, lastLogin = 50, refreshTokens = Some []\<rparr>"

definition user1 :: user where
  "user1 =
     \<lparr>uid = ''u1'', name = ''Alex Johnson'', email = ''user1@blogsite.com'',
      password = Some ''$2a$12$saltUser123!'', role = ''user'', avatar = [], bio = [],
      isActive = True, lastLogin = 60, refreshTokens = Some []\<rparr>"


definition user2_refresh_token :: string where
  "user2_refresh_token =
     demo_token \<lparr>claim_id = ObjectId ''u2'', claim_email = None, claim_role = None\<rparr>
       ''s3cretrefresh'' 1000 605800"

definition user2_access_token :: string where
  "user2_access_token =
     demo_token \<lparr>claim_id = ObjectId ''u2'', claim_email = Some ''user2@blogsite.com'',
                 claim_role = Some ''user''\<rparr>
       ''s3cret'' 1000 605800"

definition user2 :: user where
  "user2 =
     \<lparr>uid = ''u2'', name = ''Sarah Chen'', email = ''user2@blogsite.com'',
      password = Some ''$2a$12$saltUser123!'', role = ''user'', avatar = [], bio = [],
      isActive = False, lastLogin = 70,
      refreshTokens = Some [\<lparr>token = user2_refresh_token, createdAt = 1000\<rparr>]\<rparr>"

definition user1_access_token :: string where
  "user1_access_token =
     demo_token \<lparr>claim_id = ObjectId ''u1'', claim_email = Some ''user1@blogsite.com'',
                 claim_role = Some ''user''\<rparr>
       ''s3cret'' 1000 605800"

definition admin0_access_token :: string where
  "admin0_access_token =
     demo_token \<lparr>claim_id = ObjectId ''a1'', claim_email = Some ''admin@blogsite.com'',
                 claim_role = Some ''admin''\<rparr>
       ''s3cret'' 1000 605800"

definition user1_refresh_token :: string where
  "user1_refresh_token =
     demo_token \<lparr>claim_id = ObjectId ''u1'', claim_email = None, claim_role = None\<rparr>
       ''s3cretrefresh'' 1000 605800"

definition user1_logged_in :: user where
  "user1_logged_in = user1\<lparr>refreshTokens := Some [\<lparr>token = user1_refresh_token, createdAt = 1000\<rparr>]\<rparr>"

definition deactivate_user1 :: request where
  "deactivate_user1 =
     request0\<lparr>header_Authorization := Some (''Bearer '' @ admin0_access_token),
              params_id := ObjectId ''u1'', body_isActive := Some False\<rparr>"

definition admin0_attached :: document where
  "admin0_attached = select_minus_password_refreshTokens ((hydrate admin0)\<lparr>password := None\<rparr>)"

definition foreign_expired_token :: string where
  "foreign_expired_token =
     demo_token \<lparr>claim_id = ObjectId ''u1'', claim_email = Some ''user1@blogsite.com'',
                 claim_role = Some ''user''\<rparr>
       ''0ther'' 1000 1500"

section \<open>Facts about the library instance\<close>

lemma demo_dec_enc_nat: "demo_dec_nat (demo_enc_nat n @ r) = Some (n, r)"
proof (induction n rule: demo_enc_nat.induct)
  case (1 n)
  show ?case
  proof (cases "n = 0")
    case True
    then show ?thesis by (simp add: demo_enc_nat.simps)
  next
    case False
    with 1 have ih: "demo_dec_nat (demo_enc_nat (n div 2) @ r) = Some (n div 2, r)" by simp
    show ?thesis
      using False ih by (subst demo_enc_nat.simps) auto
  qed
qed

lemma demo_dec_enc_str: "demo_dec_str (demo_enc_str s @ r) = Some (s, r)"
  by (simp add: demo_dec_str_def demo_enc_str_def demo_dec_enc_nat)

lemma demo_dec_enc_opt: "demo_dec_opt (demo_enc_opt x @ r) = Some (x, r)"
  by (cases x) (simp_all add: demo_dec_opt_def demo_enc_opt_def demo_dec_enc_str)

lemma demo_dec_enc_id: "demo_dec_id (demo_enc_id v @ r) = Some (v, r)"
  by (cases v) (simp_all add: demo_dec_id_def demo_enc_id_def demo_dec_enc_str)

lemma demo_enc_nat_nonempty: "demo_enc_nat n \<noteq> []"
  by (subst demo_enc_nat.simps) simp

lemma demo_enc_str_nonempty: "demo_enc_str s \<noteq> []"
  by (simp add: demo_enc_str_def demo_enc_nat_nonempty)

lemma demo_token_nonempty: "demo_token p k t0 t1 \<noteq> []"
  by (cases "claim_id p") (simp_all add: demo_token_def demo_enc_id_def)

lemma demo_parse_token: "demo_parse (demo_token p k t0 t1) = Some (stamp p t0 t1, k)"
  by (simp add: demo_parse_def demo_token_def demo_dec_enc_id demo_dec_enc_opt
        demo_dec_enc_nat stamp_def)

lemma demo_verify_token:
  "demo_verify (demo_token p k t0 t1) (Some k') clock =
     (if k \<noteq> k' \<or> k' = [] then Inl (JsError ''JsonWebTokenError'' ''invalid signature'')
      else if t1 \<le> clock then Inl (JsError ''TokenExpiredError'' ''jwt expired'')
      else Inr (stamp p t0 t1))"
  by (simp add: demo_verify_def demo_parse_token demo_token_nonempty stamp_def)

lemma demo_jwt_contract: "jwt_contract demo_jwt"
  unfolding jwt_contract_def demo_jwt_def
  by (simp add: demo_sign_def demo_verify_token demo_token_nonempty)

lemma findById_first:
  "find (\<lambda>x. uid x = i) db = Some u \<Longrightarrow>
     findById db (ObjectId i) = Inr (Some ((hydrate u)\<lparr>password := None\<rparr>))"
  by (simp add: findById_def)

lemma findById_SomeD:
  "findById db v = Inr (Some d) \<Longrightarrow>
     \<exists>i u. v = ObjectId i \<and> find (\<lambda>x. uid x = i) db = Some u
           \<and> d = (hydrate u)\<lparr>password := None\<rparr>"
  by (cases v) (auto simp: findById_def)

lemma find_uid: "find (\<lambda>x. uid x = i) db = Some u \<Longrightarrow> uid u = i \<and> u \<in> set db"
  by (auto simp: find_Some_iff)

lemma hydrate_fields [simp]:
  "uid (hydrate u) = uid u"
  "name (hydrate u) = name u"
  "email (hydrate u) = email u"
  "password (hydrate u) = password u"
  "role (hydrate u) = role u"
  "avatar (hydrate u) = avatar u"
  "bio (hydrate u) = bio u"
  "isActive (hydrate u) = isActive u"
  "lastLogin (hydrate u) = lastLogin u"
  "refreshTokens (hydrate u) = refreshTokens u"
  "modifiedPaths (hydrate u) = []"
  by (simp_all add: hydrate_def)

lemma updateOne_None_iff: "updateOne i f db = None \<longleftrightarrow> find (\<lambda>x. uid x = i) db = None"
  by (induction db) auto

lemma updateOne_find_same:
  "updateOne i f db = Some db' \<Longrightarrow> (\<And>x. uid (f x) = uid x) \<Longrightarrow>
     find (\<lambda>x. uid x = i) db' = map_option f (find (\<lambda>x. uid x = i) db)"
  by (induction db arbitrary: db') (auto split: if_splits)

lemma updateOne_find_other:
  "updateOne i f db = Some db' \<Longrightarrow> (\<And>x. uid (f x) = uid x) \<Longrightarrow> j \<noteq> i \<Longrightarrow>
     find (\<lambda>x. uid x = j) db' = find (\<lambda>x. uid x = j) db"
  by (induction db arbitrary: db') (auto split: if_splits)

lemma updateOne_map:
  "updateOne i f db = Some db' \<Longrightarrow> (\<And>x. g (f x) = g x) \<Longrightarrow> map g db' = map g db"
  by (induction db arbitrary: db') (auto split: if_splits)

lemma uid_apply_delta [simp]: "uid (apply_delta d s) = uid s"
  by (simp add: apply_delta_def)

lemma save_loaded:
  assumes "\<not> isModified ''password'' d" and "find (\<lambda>x. uid x = uid d) db = Some s"
  shows "\<exists>db'. save B db d = Inr (db', d\<lparr>modifiedPaths := []\<rparr>)
               \<and> updateOne (uid d) (apply_delta d) db = Some db'"
proof -
  have p: "pre_save B d = Inr d" using assms(1) by (simp add: pre_save_def)
  from assms(2) have "updateOne (uid d) (apply_delta d) db \<noteq> None"
    by (simp add: updateOne_None_iff)
  then obtain db' where "updateOne (uid d) (apply_delta d) db = Some db'" by blast
  with p show ?thesis by (simp add: save_def)
qed

lemma Bearer_split: "startsWith h ''Bearer '' \<Longrightarrow> h = ''Bearer '' @ substring h 7"
proof -
  assume "startsWith h ''Bearer ''"
  then have "take (length ''Bearer '') h = ''Bearer ''" unfolding startsWith_def .
  moreover have "length ''Bearer '' = (7::nat)" by simp
  ultimately have "take 7 h = ''Bearer ''" by (simp only:)
  then show ?thesis
    unfolding substring_def using append_take_drop_id [of 7 h] by simp
qed

lemma startsWith_Bearer: "startsWith (''Bearer '' @ tok) ''Bearer ''"
  by (simp add: startsWith_def)

lemma substring_Bearer: "substring (''Bearer '' @ tok) 7 = tok"
  by (simp add: substring_def)

lemma jwt_contract_sign:
  assumes "jwt_contract J" and "k \<noteq> []"
  shows "\<exists>tok. jwt_sign J p (Some k) ttl t0 = Inr tok"
  using assms(1) [unfolded jwt_contract_def, rule_format, OF assms(2), of p ttl t0] by blast

lemma jwt_contract_nonempty:
  assumes "jwt_contract J" and "k \<noteq> []" and "jwt_sign J p (Some k) ttl t0 = Inr tok"
  shows "tok \<noteq> []"
  using assms(1) [unfolded jwt_contract_def, rule_format, OF assms(2), of p ttl t0] assms(3)
  by auto

lemma jwt_contract_valid:
  assumes "jwt_contract J" and "k \<noteq> []" and "jwt_sign J p (Some k) ttl t0 = Inr tok"
    and "now < t0 + ttl"
  shows "jwt_verify J tok (Some k) now = Inr (stamp p t0 (t0 + ttl))"
  using assms(1) [unfolded jwt_contract_def, rule_format, OF assms(2), of p ttl t0] assms(3,4)
  by auto

lemma jwt_contract_expired:
  assumes "jwt_contract J" and "k \<noteq> []" and "jwt_sign J p (Some k) ttl t0 = Inr tok"
    and "t0 + ttl \<le> now"
  shows "\<exists>msg. jwt_verify J tok (Some k) now = Inl (JsError ''TokenExpiredError'' msg)"
  using assms(1) [unfolded jwt_contract_def, rule_format, OF assms(2), of p ttl t0] assms(3,4)
  by auto

lemma auth_Bearer:
  assumes "header_Authorization req = Some (''Bearer '' @ tok)" and "tok \<noteq> []"
  shows "auth J e db now req =
           (case jwt_verify J tok (JWT_SECRET e) now of
              Inl error \<Rightarrow> auth_catch error
            | Inr dec \<Rightarrow>
                (case findById db (claim_id dec) of
                   Inl error \<Rightarrow> auth_catch error
                 | Inr None \<Rightarrow> deny 401 ''Token is not valid - user not found''
                 | Inr (Some u) \<Rightarrow>
                     if \<not> isActive u then deny 401 ''User account is deactivated''
                     else Next (req\<lparr>req_user := Some (select_minus_password_refreshTokens u)\<rparr>)))"
proof -
  have s: "startsWith (''Bearer '' @ tok) ''Bearer ''" by (rule startsWith_Bearer)
  have d: "substring (''Bearer '' @ tok) 7 = tok" by (rule substring_Bearer)
  have n: "''Bearer '' @ tok \<noteq> []" by simp
  show ?thesis
    unfolding auth_def Let_def assms(1) option.case d
    using assms(2) s n
    by (simp add: select_minus_password_refreshTokens_def split: sum.splits option.splits)
qed

lemma auth_catch_expired [simp]:
  "auth_catch (JsError ''TokenExpiredError'' msg) = deny 401 ''Token expired''"
  by (simp add: auth_catch_def)

lemma verifyRefreshToken_present:
  assumes "body_refreshToken req = Some tok" and "tok \<noteq> []"
  shows "verifyRefreshToken J e db now req =
           (case jwt_verify J tok (Some (refresh_secret e)) now of
               Inl error \<Rightarrow> verifyRefreshToken_catch error
             | Inr dec \<Rightarrow>
                 (case findById db (claim_id dec) of
                    Inl error \<Rightarrow> verifyRefreshToken_catch error
                  | Inr None \<Rightarrow> deny 401 ''Invalid refresh token - user not found''
                  | Inr (Some u) \<Rightarrow>
                      (case refreshTokens u of
                         None \<Rightarrow> deny 500 ''Server error during refresh token verification''
                       | Some ts \<Rightarrow>
                           if tok \<in> token ` set ts
                           then Next (req\<lparr>req_user := Some u, req_refreshToken := Some tok\<rparr>)
                           else deny 401 ''Invalid refresh token'')))"
proof -
  have m: "\<And>ts. list_ex (\<lambda>tokenObj. token tokenObj = tok) ts = (tok \<in> token ` set ts)"
    by (auto simp: list_ex_iff)
  show ?thesis
    unfolding verifyRefreshToken_def Let_def assms(1) option.case m
    using assms(2) by (simp add: verifyRefreshToken_catch_def split: sum.splits option.splits)
qed


lemma save_loaded_find:
  assumes "\<not> isModified ''password'' d" and "find (\<lambda>x. uid x = uid d) db = Some s"
  shows "\<exists>db'. save B db d = Inr (db', d\<lparr>modifiedPaths := []\<rparr>)
               \<and> find (\<lambda>x. uid x = uid d) db' = Some (apply_delta d s)"
proof -
  from save_loaded [OF assms, of B] obtain db' where
    s: "save B db d = Inr (db', d\<lparr>modifiedPaths := []\<rparr>)" and
    u: "updateOne (uid d) (apply_delta d) db = Some db'" by blast
  have "find (\<lambda>x. uid x = uid d) db' = Some (apply_delta d s)"
    using updateOne_find_same [OF u] assms(2) by simp
  with s show ?thesis by blast
qed

lemma find_distinct_key:
  "distinct (map f db) \<Longrightarrow> u \<in> set db \<Longrightarrow> Q u \<Longrightarrow> find (\<lambda>x. f x = f u \<and> Q x) db = Some u"
  by (induction db) (auto simp: image_iff)

lemma find_distinct_uid:
  "distinct (map uid db) \<Longrightarrow> u \<in> set db \<Longrightarrow> find (\<lambda>x. uid x = uid u) db = Some u"
  using find_distinct_key [of uid db u "\<lambda>_. True"] by simp

lemma distinct_key_eq:
  "distinct (map f db) \<Longrightarrow> u \<in> set db \<Longrightarrow> x \<in> set db \<Longrightarrow> f x = f u \<Longrightarrow> x = u"
  by (meson distinct_map inj_onD)

lemma distinct_uid_eq:
  "distinct (map uid db) \<Longrightarrow> u \<in> set db \<Longrightarrow> x \<in> set db \<Longrightarrow> uid x = uid u \<Longrightarrow> x = u"
  by (rule distinct_key_eq)

lemma updateOne_distinct:
  "distinct (map uid db) \<Longrightarrow> updateOne i f db = Some db' \<Longrightarrow>
     db' = map (\<lambda>x. if uid x = i then f x else x) db"
proof (induction db arbitrary: db')
  case Nil
  then show ?case by simp
next
  case (Cons a db)
  show ?case
  proof (cases "uid a = i")
    case True
    with Cons.prems have "\<forall>x\<in>set db. uid x \<noteq> i" by (auto simp: image_iff)
    then have "map (\<lambda>x. if uid x = i then f x else x) db = db" by (induction db) auto
    with True Cons.prems show ?thesis by simp
  next
    case False
    with Cons.prems obtain r where r: "updateOne i f db = Some r" and d: "db' = a # r" by auto
    from Cons.IH [OF _ r] Cons.prems(1) have "r = map (\<lambda>x. if uid x = i then f x else x) db"
      by simp
    with d False show ?thesis by simp
  qed
qed

lemma auth_NextD:
  assumes "auth J e db now req = Next req1"
  shows "\<exists>u. req1 = req\<lparr>req_user := Some u\<rparr> \<and> isActive u"
proof (cases "header_Authorization req")
  case None
  with assms show ?thesis by (simp add: auth_def deny_def)
next
  case (Some h)
  show ?thesis
  proof (cases "h \<noteq> [] \<and> startsWith h ''Bearer '' \<and> substring h 7 \<noteq> []")
    case False
    with Some have "auth J e db now req = deny 401 ''No token provided, authorization denied''"
      by (cases "h = []"; cases "startsWith h ''Bearer ''"; cases "substring h 7 = []")
         (simp_all add: auth_def Let_def)
    with assms show ?thesis by (simp add: deny_def)
  next
    case True
    then have h: "header_Authorization req = Some (''Bearer '' @ substring h 7)"
      using Bearer_split [of h] Some by simp
    from True have ne: "substring h 7 \<noteq> []" by simp
    show ?thesis
      using assms unfolding auth_Bearer [OF h ne]
      by (auto simp: deny_def auth_catch_def select_minus_password_refreshTokens_def
               split: sum.splits option.splits if_splits)
  qed
qed

lemma adminAuth_NextD:
  "adminAuth req1 = Next req2 \<Longrightarrow> req2 = req1"
  by (auto simp: adminAuth_def deny_def split: option.splits if_splits)

lemma put_status_handler_ok:
  assumes "req_user req = Some me" and "uid me \<noteq> i" and "params_id req = ObjectId i"
    and "find (\<lambda>x. uid x = i) db = Some s" and "body_isActive req = Some b"
  shows "\<exists>r db' d. put_status_handler B db req = (r, db') \<and> status r = 200
           \<and> updateOne i (apply_delta d) db = Some db'
           \<and> apply_delta d s = (if b then s\<lparr>isActive := True\<rparr>
                                 else s\<lparr>isActive := False, refreshTokens := Some []\<rparr>)
           \<and> (b \<longrightarrow> \<not> isModified ''refreshTokens'' d)"
proof -
  define u where "u = (hydrate s)\<lparr>password := None\<rparr>"
  define u1 where "u1 = (if isActive u = b then u
                         else markModified ''isActive'' (u\<lparr>isActive := b\<rparr>))"
  define u2 where "u2 = (if \<not> b then (if refreshTokens u1 = Some [] then u1
                                       else markModified ''refreshTokens''
                                              (u1\<lparr>refreshTokens := Some []\<rparr>))
                         else u1)"
  have us: "uid s = i" using find_uid [OF assms(4)] by simp
  have f: "findById db (params_id req) = Inr (Some u)"
    using findById_first [OF assms(4)] by (simp add: u_def assms(3))
  have uu: "uid u2 = i"
    by (simp add: u2_def u1_def u_def markModified_def us)
  have np: "\<not> isModified ''password'' u2"
    by (simp add: u2_def u1_def u_def markModified_def isModified_def)
  have fs: "find (\<lambda>x. uid x = uid u2) db = Some s" using assms(4) uu by simp
  from save_loaded [OF np fs, of B] obtain db' where
    sv: "save B db u2 = Inr (db', u2\<lparr>modifiedPaths := []\<rparr>)" and
    up: "updateOne (uid u2) (apply_delta u2) db = Some db'" by blast
  have ne: "uid u \<noteq> uid me" using assms(2) us by (simp add: u_def)
  have h0: "put_status_handler B db req =
              (case save B db u2 of
                 Inl error \<Rightarrow> (put_status_catch error, db)
               | Inr (db', saved) \<Rightarrow>
                   (\<lparr>status = 200, success = True,
                     message = ''User '' @ (if b then ''activated'' else ''deactivated'')
                               @ '' successfully'',
                     data_user = Some (toJSON saved)\<rparr>, db'))"
    unfolding put_status_handler_def assms(5) option.case f sum.case assms(1) u2_def u1_def Let_def
    using ne by simp
  have h: "\<exists>r. put_status_handler B db req = (r, db') \<and> status r = 200"
    unfolding h0 sv by simp
  have ad: "apply_delta u2 s = (if b then s\<lparr>isActive := True\<rparr>
                                 else s\<lparr>isActive := False, refreshTokens := Some []\<rparr>)"
    by (cases b; cases "isActive s"; cases "refreshTokens s = Some []")
       (simp_all add: u2_def u1_def u_def apply_delta_def markModified_def isModified_def)
  have nm: "b \<longrightarrow> \<not> isModified ''refreshTokens'' u2"
    by (simp add: u2_def u1_def u_def markModified_def isModified_def)
  from h up uu ad nm show ?thesis by auto
qed

section \<open>Expired access tokens\<close>

text \<open>
  Claim C5, as stated: every token whose expiry lies in the past is answered with
  \<^verbatim>\<open>Token expired\<close> and never with \<^verbatim>\<open>Invalid token\<close>, whatever else it holds. The
  library checks the signature before the expiry, and \<open>auth\<close> passes on what the library
  reports: a token that expired at clock 1500 and was signed with another key than the
  primary secret is answered with \<^verbatim>\<open>Invalid token\<close> at clock 2000.
\<close>

theorem expired_foreign_token_counterexample:
  "map_option (\<lambda>(dec, sig). (exp dec, sig)) (demo_parse foreign_expired_token)
     = Some (1500, ''0ther'')
   \<and> JWT_SECRET env0 = Some ''s3cret''
   \<and> auth demo_jwt env0 [user1] 2000
        (request0\<lparr>header_Authorization := Some (''Bearer '' @ foreign_expired_token)\<rparr>)
       = deny 401 ''Invalid token''"
proof -
  have p: "map_option (\<lambda>(dec, sig). (exp dec, sig)) (demo_parse foreign_expired_token)
             = Some (1500, ''0ther'')"
    by (simp add: foreign_expired_token_def demo_parse_token stamp_def)
  have k: "JWT_SECRET env0 = Some ''s3cret''" by (simp add: env0_def)
  have ne: "foreign_expired_token \<noteq> []"
    by (simp add: foreign_expired_token_def demo_token_nonempty)
  have v: "jwt_verify demo_jwt foreign_expired_token (JWT_SECRET env0) 2000
             = Inl (JsError ''JsonWebTokenError'' ''invalid signature'')"
    by (simp add: demo_jwt_def env0_def foreign_expired_token_def demo_verify_token)
  have "auth demo_jwt env0 [user1] 2000
          (request0\<lparr>header_Authorization := Some (''Bearer '' @ foreign_expired_token)\<rparr>)
         = deny 401 ''Invalid token''"
    by (subst auth_Bearer [where tok = foreign_expired_token])
       (simp_all add: ne v auth_catch_def)
  with p k show ?thesis by blast
qed

text \<open>
  Claim C5, amended. A token signed with the primary secret whose expiry is not after the
  clock reading is answered by \<open>auth\<close> with status 401 and the message
  \<^verbatim>\<open>Token expired\<close>, never with \<^verbatim>\<open>Invalid token\<close>, whatever payload it carries and
  whatever the collection holds.
\<close>

theorem expired_token_rejected:
  assumes "jwt_contract J" and "JWT_SECRET e = Some k" and "k \<noteq> []"
    and "jwt_sign J p (Some k) ttl t0 = Inr tok" and "t0 + ttl \<le> now"
    and "header_Authorization req = Some (''Bearer '' @ tok)"
  shows "auth J e db now req = deny 401 ''Token expired''
         \<and> auth J e db now req \<noteq> deny 401 ''Invalid token''"
proof -
  have ne: "tok \<noteq> []" by (rule jwt_contract_nonempty [OF assms(1,3,4)])
  from jwt_contract_expired [OF assms(1,3,4,5)] obtain msg where
    "jwt_verify J tok (Some k) now = Inl (JsError ''TokenExpiredError'' msg)" by blast
  then have "auth J e db now req = deny 401 ''Token expired''"
    using auth_Bearer [OF assms(6) ne, of J e db now] assms(2) by simp
  then show ?thesis by (simp add: deny_def)
qed

theorem expired_token_rejected_witness:
  "jwt_contract demo_jwt \<and> JWT_SECRET env0 = Some ''s3cret''
   \<and> jwt_sign demo_jwt
        \<lparr>claim_id = ObjectId ''u1'', claim_email = Some ''user1@blogsite.com'', claim_role = Some ''user''\<rparr>
        (Some ''s3cret'') 604800 1000 = Inr user1_access_token
   \<and> auth demo_jwt env0 [user1] 605800
        (request0\<lparr>header_Authorization := Some (''Bearer '' @ user1_access_token)\<rparr>)
       = deny 401 ''Token expired''"
proof -
  have c: "jwt_contract demo_jwt" by (rule demo_jwt_contract)
  have k: "JWT_SECRET env0 = Some ''s3cret''" by (simp add: env0_def)
  have s: "jwt_sign demo_jwt
        \<lparr>claim_id = ObjectId ''u1'', claim_email = Some ''user1@blogsite.com'', claim_role = Some ''user''\<rparr>
        (Some ''s3cret'') 604800 1000 = Inr user1_access_token"
    by (simp add: demo_jwt_def demo_sign_def user1_access_token_def)
  have h: "header_Authorization (request0\<lparr>header_Authorization := Some (''Bearer '' @ user1_access_token)\<rparr>)
            = Some (''Bearer '' @ user1_access_token)" by simp
  show ?thesis
    using c k s expired_token_rejected [OF c k _ s _ h, of 605800 "[user1]"] by simp
qed

section \<open>A missing refresh token\<close>




section \<open>optionalAuth\<close>

text \<open>
  Claim C9. \<open>optionalAuth\<close> always calls \<^verbatim>\<open>next()\<close>, whatever the header, the
  library's answer and the collection. The request is passed on unchanged unless the
  header is \<^verbatim>\<open>Bearer\<close> followed by a non-empty token that verifies under the
  primary secret and whose id resolves to an active user; then that user, without
  password and refresh tokens, is attached.
\<close>
theorem optionalAuth_never_fails:
  "\<exists>req'. optionalAuth J e db now req = Next req' \<and>
     (req' = req \<or>
      (\<exists>tok dec u. header_Authorization req = Some (''Bearer '' @ tok) \<and> tok \<noteq> []
         \<and> jwt_verify J tok (JWT_SECRET e) now = Inr dec
         \<and> findById db (claim_id dec) = Inr (Some u) \<and> isActive u
         \<and> req' = req\<lparr>req_user := Some (select_minus_password_refreshTokens u)\<rparr>))"
proof (cases "header_Authorization req")
  case None
  then show ?thesis by (simp add: optionalAuth_def)
next
  case (Some h)
  show ?thesis
  proof (cases "h \<noteq> [] \<and> startsWith h ''Bearer '' \<and> substring h 7 \<noteq> []")
    case False
    with Some have "optionalAuth J e db now req = Next req"
      by (cases "h = []"; cases "startsWith h ''Bearer ''"; cases "substring h 7 = []")
         (simp_all add: optionalAuth_def Let_def)
    then show ?thesis by simp
  next
    case True
    then have h: "h = ''Bearer '' @ substring h 7"
      using Bearer_split [of h] by simp
    define tok where "tok = substring h 7"
    have hdr: "header_Authorization req = Some (''Bearer '' @ tok)" and ne: "tok \<noteq> []"
      using Some h True by (simp_all add: tok_def)
    show ?thesis
    proof (cases "jwt_verify J tok (JWT_SECRET e) now")
      case (Inl err)
      with Some True show ?thesis by (simp add: optionalAuth_def tok_def)
    next
      case (Inr dec)
      show ?thesis
      proof (cases "findById db (claim_id dec)")
        case cast: (Inl err)
        with Some True Inr show ?thesis by (simp add: optionalAuth_def tok_def)
      next
        case found: (Inr found)
        show ?thesis
        proof (cases found)
          case None
          with Some True Inr found show ?thesis by (simp add: optionalAuth_def tok_def)
        next
          case u: (Some u)
          show ?thesis
          proof (cases "isActive u")
            case False
            with Some True Inr found u show ?thesis
              by (simp add: optionalAuth_def tok_def select_minus_password_refreshTokens_def)
          next
            case act: True
            have "optionalAuth J e db now req
                    = Next (req\<lparr>req_user := Some (select_minus_password_refreshTokens u)\<rparr>)"
              using Some True Inr found u act
              by (simp add: optionalAuth_def tok_def select_minus_password_refreshTokens_def)
            with hdr ne Inr found u act show ?thesis by blast
          qed
        qed
      qed
    qed
  qed
qed

section \<open>Inactive users\<close>

text \<open>
  Claim C1. For the inactive user \<open>user2\<close>, whose stored refresh-token list holds a
  refresh token that verifies, \<open>auth\<close> rejects the user's verifying access token with
  \<^verbatim>\<open>User account is deactivated\<close>, while \<open>verifyRefreshToken\<close> accepts the refresh
  token and attaches the user: it never reads \<open>isActive\<close>.
\<close>
theorem inactive_user_refresh_accepted:
  "\<not> isActive user2
   \<and> auth demo_jwt env0 [user2] 2000
        (request0\<lparr>header_Authorization := Some (''Bearer '' @ user2_access_token)\<rparr>)
       = deny 401 ''User account is deactivated''
   \<and> verifyRefreshToken demo_jwt env0 [user2] 2000
        (request0\<lparr>body_refreshToken := Some user2_refresh_token\<rparr>)
       = Next (request0\<lparr>body_refreshToken := Some user2_refresh_token,
                        req_user := Some ((hydrate user2)\<lparr>password := None\<rparr>),
                        req_refreshToken := Some user2_refresh_token\<rparr>)"
proof -
  have a: "\<not> isActive user2" by (simp add: user2_def)
  have f: "findById [user2] (ObjectId ''u2'') = Inr (Some ((hydrate user2)\<lparr>password := None\<rparr>))"
    by (simp add: findById_def user2_def)
  have va: "jwt_verify demo_jwt user2_access_token (JWT_SECRET env0) 2000
              = Inr (stamp \<lparr>claim_id = ObjectId ''u2'', claim_email = Some ''user2@blogsite.com'',
                             claim_role = Some ''user''\<rparr> 1000 605800)"
    by (simp add: demo_jwt_def env0_def user2_access_token_def demo_verify_token)
  have vr: "jwt_verify demo_jwt user2_refresh_token (Some (refresh_secret env0)) 2000
              = Inr (stamp \<lparr>claim_id = ObjectId ''u2'', claim_email = None, claim_role = None\<rparr> 1000 605800)"
    by (simp add: demo_jwt_def env0_def refresh_secret_def user2_refresh_token_def demo_verify_token)
  have nea: "user2_access_token \<noteq> []" and ner: "user2_refresh_token \<noteq> []"
    by (simp_all add: user2_access_token_def user2_refresh_token_def demo_token_nonempty)
  have ts: "refreshTokens ((hydrate user2)\<lparr>password := None\<rparr>)
              = Some [\<lparr>token = user2_refresh_token, createdAt = 1000\<rparr>]"
    by (simp add: hydrate_def user2_def)
  have ia: "\<not> isActive ((hydrate user2)\<lparr>password := None\<rparr>)"
    by (simp add: hydrate_def user2_def)
  have 1: "auth demo_jwt env0 [user2] 2000
        (request0\<lparr>header_Authorization := Some (''Bearer '' @ user2_access_token)\<rparr>)
       = deny 401 ''User account is deactivated''"
    by (subst auth_Bearer [where tok = user2_access_token]) (simp_all add: nea va stamp_def f ia)
  have 2: "verifyRefreshToken demo_jwt env0 [user2] 2000
        (request0\<lparr>body_refreshToken := Some user2_refresh_token\<rparr>)
       = Next (request0\<lparr>body_refreshToken := Some user2_refresh_token,
                        req_user := Some ((hydrate user2)\<lparr>password := None\<rparr>),
                        req_refreshToken := Some user2_refresh_token\<rparr>)"
    by (subst verifyRefreshToken_present [where tok = user2_refresh_token])
       (simp_all add: ner vr stamp_def f ts)
  from a 1 2 show ?thesis by blast
qed

section \<open>The access-token round trip\<close>

text \<open>
  Claim C2, as stated: the token made by \<open>generateAuthToken\<close> for an active, unmodified
  user always passes \<open>auth\<close>. It does not once its lifetime is over: the token made for
  \<open>admin0\<close> at clock 1000 with the default lifetime of seven days is answered with
  \<^verbatim>\<open>Token expired\<close> at clock 700000.
\<close>
theorem access_token_expired_counterexample:
  "isActive admin0
   \<and> generateAuthToken demo_jwt env0 1000 (hydrate admin0) = Inr admin0_access_token
   \<and> auth demo_jwt env0 [admin0] 700000
        (request0\<lparr>header_Authorization := Some (''Bearer '' @ admin0_access_token)\<rparr>)
       = deny 401 ''Token expired''"
proof -
  have a: "isActive admin0" by (simp add: admin0_def)
  have g: "generateAuthToken demo_jwt env0 1000 (hydrate admin0) = Inr admin0_access_token"
    by (simp add: generateAuthToken_def demo_jwt_def demo_sign_def env0_def hydrate_def
          admin0_def admin0_access_token_def seven_days_def)
  have v: "jwt_verify demo_jwt admin0_access_token (JWT_SECRET env0) 700000
             = Inl (JsError ''TokenExpiredError'' ''jwt expired'')"
    by (simp add: demo_jwt_def env0_def admin0_access_token_def demo_verify_token)
  have ne: "admin0_access_token \<noteq> []"
    by (simp add: admin0_access_token_def demo_token_nonempty)
  have "auth demo_jwt env0 [admin0] 700000
        (request0\<lparr>header_Authorization := Some (''Bearer '' @ admin0_access_token)\<rparr>)
       = deny 401 ''Token expired''"
    by (subst auth_Bearer [where tok = admin0_access_token]) (simp_all add: ne v)
  with a g show ?thesis by blast
qed

text \<open>
  Claim C2, amended. With a non-empty primary secret, \<open>generateAuthToken\<close> returns a
  token for every stored active user, and every request that presents it as
  \<^verbatim>\<open>Bearer <token>\<close> before the token's expiry (issue time plus \<^verbatim>\<open>JWT_EXPIRE\<close>,
  seven days when unset), while the user is stored unchanged, passes \<open>auth\<close> with a user
  of the same id, email and role attached.
\<close>

theorem access_token_round_trip:
  assumes "jwt_contract J" and "JWT_SECRET e = Some k" and "k \<noteq> []"
    and "find (\<lambda>x. uid x = uid u) db = Some u" and "isActive u"
  shows "\<exists>tok. generateAuthToken J e t0 (hydrate u) = Inr tok \<and>
           (\<forall>req now. header_Authorization req = Some (''Bearer '' @ tok) \<longrightarrow>
                now < t0 + (case JWT_EXPIRE e of None \<Rightarrow> seven_days | Some t \<Rightarrow> t) \<longrightarrow>
                (\<exists>d. auth J e db now req = Next (req\<lparr>req_user := Some d\<rparr>)
                      \<and> uid d = uid u \<and> email d = email u \<and> role d = role u))"
proof -
  define ttl where "ttl = (case JWT_EXPIRE e of None \<Rightarrow> seven_days | Some t \<Rightarrow> t)"
  define p where
    "p = \<lparr>claim_id = ObjectId (uid u), claim_email = Some (email u), claim_role = Some (role u)\<rparr>"
  from jwt_contract_sign [OF assms(1,3)] obtain tok where
    s: "jwt_sign J p (Some k) ttl t0 = Inr tok" by blast
  have g: "generateAuthToken J e t0 (hydrate u) = Inr tok"
    using s assms(2) by (simp add: generateAuthToken_def p_def ttl_def hydrate_def)
  have ne: "tok \<noteq> []" by (rule jwt_contract_nonempty [OF assms(1,3) s])
  have f: "findById db (ObjectId (uid u)) = Inr (Some ((hydrate u)\<lparr>password := None\<rparr>))"
    by (rule findById_first [OF assms(4)])
  have "\<exists>d. auth J e db now req = Next (req\<lparr>req_user := Some d\<rparr>)
              \<and> uid d = uid u \<and> email d = email u \<and> role d = role u"
    if h: "header_Authorization req = Some (''Bearer '' @ tok)" and t: "now < t0 + ttl"
    for req now
  proof -
    have v: "jwt_verify J tok (JWT_SECRET e) now = Inr (stamp p t0 (t0 + ttl))"
      using jwt_contract_valid [OF assms(1,3) s t] assms(2) by simp
    have c: "claim_id (stamp p t0 (t0 + ttl)) = ObjectId (uid u)" by (simp add: stamp_def p_def)
    have "auth J e db now req
            = Next (req\<lparr>req_user := Some (select_minus_password_refreshTokens
                                             ((hydrate u)\<lparr>password := None\<rparr>))\<rparr>)"
      unfolding auth_Bearer [OF h ne] v using c f assms(5) by simp
    then show ?thesis
      by (intro exI [of _ "select_minus_password_refreshTokens ((hydrate u)\<lparr>password := None\<rparr>)"])
         (simp add: select_minus_password_refreshTokens_def hydrate_def)
  qed
  with g show ?thesis unfolding ttl_def by blast
qed

theorem access_token_round_trip_witness:
  "jwt_contract demo_jwt \<and> JWT_SECRET env0 = Some ''s3cret''
   \<and> find (\<lambda>x. uid x = uid admin0) [user1, admin0] = Some admin0 \<and> isActive admin0
   \<and> (\<exists>tok. generateAuthToken demo_jwt env0 1000 (hydrate admin0) = Inr tok \<and>
         (\<exists>d. auth demo_jwt env0 [user1, admin0] 2000
                 (request0\<lparr>header_Authorization := Some (''Bearer '' @ tok)\<rparr>)
               = Next (request0\<lparr>header_Authorization := Some (''Bearer '' @ tok),
                                req_user := Some d\<rparr>)
             \<and> uid d = ''a1'' \<and> email d = ''admin@blogsite.com'' \<and> role d = ''admin''))"
proof -
  have c: "jwt_contract demo_jwt" by (rule demo_jwt_contract)
  have k: "JWT_SECRET env0 = Some ''s3cret''" by (simp add: env0_def)
  have f: "find (\<lambda>x. uid x = uid admin0) [user1, admin0] = Some admin0"
    by (simp add: admin0_def user1_def)
  have a: "isActive admin0" by (simp add: admin0_def)
  from access_token_round_trip [OF c k _ f a, of 1000] obtain tok where
    g: "generateAuthToken demo_jwt env0 1000 (hydrate admin0) = Inr tok" and
    r: "\<And>req now. header_Authorization req = Some (''Bearer '' @ tok) \<Longrightarrow>
          now < 1000 + (case JWT_EXPIRE env0 of None \<Rightarrow> seven_days | Some t \<Rightarrow> t) \<Longrightarrow>
          (\<exists>d. auth demo_jwt env0 [user1, admin0] now req = Next (req\<lparr>req_user := Some d\<rparr>)
                \<and> uid d = uid admin0 \<and> email d = email admin0 \<and> role d = role admin0)"
    by auto
  have "\<exists>d. auth demo_jwt env0 [user1, admin0] 2000
                 (request0\<lparr>header_Authorization := Some (''Bearer '' @ tok)\<rparr>)
               = Next (request0\<lparr>header_Authorization := Some (''Bearer '' @ tok),
                                req_user := Some d\<rparr>)
             \<and> uid d = ''a1'' \<and> email d = ''admin@blogsite.com'' \<and> role d = ''admin''"
    using r [of "request0\<lparr>header_Authorization := Some (''Bearer '' @ tok)\<rparr>" 2000]
    by (simp add: env0_def seven_days_def admin0_def)
  with c k f a g show ?thesis by blast
qed

section \<open>Refresh tokens and the stored set\<close>

text \<open>
  Claim C3, as stated: a refresh token whose signature verifies under the derived refresh
  secret and whose user exists passes exactly when it is in the user's stored set. The
  middleware makes one call of \<^verbatim>\<open>jwt.verify\<close>, which checks signature and expiry
  together: the token stored for \<open>user1_logged_in\<close>, signed with the refresh secret and
  expiring at clock 605800, is answered with \<^verbatim>\<open>Invalid or expired refresh token\<close> at
  clock 700000 although it is in the stored set.
\<close>

theorem stored_expired_refresh_token_counterexample:
  "demo_parse user1_refresh_token
     = Some (stamp \<lparr>claim_id = ObjectId ''u1'', claim_email = None, claim_role = None\<rparr>
               1000 605800,
             refresh_secret env0)
   \<and> findById [user1_logged_in] (ObjectId ''u1'')
       = Inr (Some ((hydrate user1_logged_in)\<lparr>password := None\<rparr>))
   \<and> refreshTokens user1_logged_in = Some [\<lparr>token = user1_refresh_token, createdAt = 1000\<rparr>]
   \<and> verifyRefreshToken demo_jwt env0 [user1_logged_in] 700000
        (request0\<lparr>body_refreshToken := Some user1_refresh_token\<rparr>)
       = deny 401 ''Invalid or expired refresh token''"
proof -
  have p: "demo_parse user1_refresh_token
     = Some (stamp \<lparr>claim_id = ObjectId ''u1'', claim_email = None, claim_role = None\<rparr>
               1000 605800,
             refresh_secret env0)"
    by (simp add: user1_refresh_token_def demo_parse_token refresh_secret_def env0_def)
  have f: "findById [user1_logged_in] (ObjectId ''u1'')
       = Inr (Some ((hydrate user1_logged_in)\<lparr>password := None\<rparr>))"
    by (simp add: findById_def user1_logged_in_def user1_def)
  have r: "refreshTokens user1_logged_in
             = Some [\<lparr>token = user1_refresh_token, createdAt = 1000\<rparr>]"
    by (simp add: user1_logged_in_def)
  have ne: "user1_refresh_token \<noteq> []"
    by (simp add: user1_refresh_token_def demo_token_nonempty)
  have v: "jwt_verify demo_jwt user1_refresh_token (Some (refresh_secret env0)) 700000
             = Inl (JsError ''TokenExpiredError'' ''jwt expired'')"
    by (simp add: demo_jwt_def env0_def refresh_secret_def user1_refresh_token_def
          demo_verify_token)
  have "verifyRefreshToken demo_jwt env0 [user1_logged_in] 700000
          (request0\<lparr>body_refreshToken := Some user1_refresh_token\<rparr>)
         = deny 401 ''Invalid or expired refresh token''"
    by (subst verifyRefreshToken_present [where tok = user1_refresh_token])
       (simp_all add: ne v verifyRefreshToken_catch_def)
  with p f r show ?thesis by blast
qed

text \<open>
  Claim C3, amended. For a refresh token that \<^verbatim>\<open>jwt.verify\<close> accepts under the derived
  refresh secret, so that its signature is valid and it has not expired, and whose id
  resolves to a user, \<open>verifyRefreshToken\<close> calls \<^verbatim>\<open>next()\<close> (with the user and the token
  attached) exactly when that token string is the \<open>token\<close> of an entry of the user's stored
  \<open>refreshTokens\<close>; otherwise it answers 401 \<^verbatim>\<open>Invalid refresh token\<close>. In particular,
  after \<open>removeRefreshToken\<close> on the loaded user and a save, the same token, which still
  verifies, gets that answer.
\<close>

theorem refresh_requires_stored_token:
  assumes "body_refreshToken req = Some tok" and "tok \<noteq> []"
    and "jwt_verify J tok (Some (refresh_secret e)) now = Inr dec"
    and "findById db (claim_id dec) = Inr (Some u)" and "refreshTokens u = Some ts"
  shows "((verifyRefreshToken J e db now req
             = Next (req\<lparr>req_user := Some u, req_refreshToken := Some tok\<rparr>))
            = (tok \<in> token ` set ts))
         \<and> (tok \<notin> token ` set ts \<longrightarrow>
               verifyRefreshToken J e db now req = deny 401 ''Invalid refresh token'')
         \<and> (\<forall>u' db' u''. removeRefreshToken tok u = Inr u' \<longrightarrow> save B db u' = Inr (db', u'') \<longrightarrow>
               verifyRefreshToken J e db' now req = deny 401 ''Invalid refresh token'')"
proof -
  have v: "verifyRefreshToken J e db now req =
             (if tok \<in> token ` set ts
              then Next (req\<lparr>req_user := Some u, req_refreshToken := Some tok\<rparr>)
              else deny 401 ''Invalid refresh token'')"
    unfolding verifyRefreshToken_present [OF assms(1,2)] using assms(3,4,5) by simp
  have 1: "(verifyRefreshToken J e db now req
            = Next (req\<lparr>req_user := Some u, req_refreshToken := Some tok\<rparr>))
           = (tok \<in> token ` set ts)"
    unfolding v by (simp add: deny_def)
  have 2: "tok \<notin> token ` set ts \<longrightarrow>
           verifyRefreshToken J e db now req = deny 401 ''Invalid refresh token''"
    unfolding v by simp
  have 3: "verifyRefreshToken J e db' now req = deny 401 ''Invalid refresh token''"
    if r: "removeRefreshToken tok u = Inr u'" and s: "save B db u' = Inr (db', u'')"
    for u' db' u''
  proof -
    from findById_SomeD [OF assms(4)] obtain i st where
      ci: "claim_id dec = ObjectId i" and
      st: "find (\<lambda>x. uid x = i) db = Some st" and u: "u = (hydrate st)\<lparr>password := None\<rparr>"
      by blast
    have ui: "uid st = i" using find_uid [OF st] by simp
    define ts' where "ts' = filter (\<lambda>tokenObj. token tokenObj \<noteq> tok) ts"
    have sts: "refreshTokens st = Some ts" using assms(5) u by simp
    have u': "u' = (if ts' = ts then u
                    else markModified ''refreshTokens'' (u\<lparr>refreshTokens := Some ts'\<rparr>))"
      using r assms(5) by (auto simp: removeRefreshToken_def ts'_def Let_def)
    have uid': "uid u' = i" using u' u ui by (simp add: markModified_def)
    have np: "\<not> isModified ''password'' u'"
      using u' u by (simp add: markModified_def isModified_def)
    have fs: "find (\<lambda>x. uid x = uid u') db = Some st" using st uid' by simp
    from save_loaded_find [OF np fs, of B] s have
      f': "find (\<lambda>x. uid x = i) db' = Some (apply_delta u' st)" using uid' by auto
    have rt: "refreshTokens (apply_delta u' st) = Some ts'"
      using u' u sts by (simp add: apply_delta_def markModified_def isModified_def)
    have fb: "findById db' (claim_id dec)
                = Inr (Some ((hydrate (apply_delta u' st))\<lparr>password := None\<rparr>))"
      using findById_first [OF f'] by (simp add: ci)
    have nm: "tok \<notin> token ` set ts'" by (auto simp: ts'_def)
    show ?thesis
      unfolding verifyRefreshToken_present [OF assms(1,2)] using assms(3) fb rt nm by simp
  qed
  from 1 2 3 show ?thesis by blast
qed

theorem refresh_requires_stored_token_witness:
  "body_refreshToken (request0\<lparr>body_refreshToken := Some user1_refresh_token\<rparr>)
     = Some user1_refresh_token
   \<and> user1_refresh_token \<noteq> []
   \<and> jwt_verify demo_jwt user1_refresh_token (Some (refresh_secret env0)) 2000
       = Inr (stamp \<lparr>claim_id = ObjectId ''u1'', claim_email = None, claim_role = None\<rparr> 1000 605800)
   \<and> findById [user1_logged_in] (ObjectId ''u1'')
       = Inr (Some ((hydrate user1_logged_in)\<lparr>password := None\<rparr>))
   \<and> verifyRefreshToken demo_jwt env0 [user1_logged_in] 2000
        (request0\<lparr>body_refreshToken := Some user1_refresh_token\<rparr>)
       = Next (request0\<lparr>body_refreshToken := Some user1_refresh_token,
                        req_user := Some ((hydrate user1_logged_in)\<lparr>password := None\<rparr>),
                        req_refreshToken := Some user1_refresh_token\<rparr>)
   \<and> removeRefreshToken user1_refresh_token ((hydrate user1_logged_in)\<lparr>password := None\<rparr>)
       = Inr ((hydrate user1)\<lparr>password := None, modifiedPaths := [''refreshTokens'']\<rparr>)
   \<and> save demo_bcrypt [user1_logged_in]
         ((hydrate user1)\<lparr>password := None, modifiedPaths := [''refreshTokens'']\<rparr>)
       = Inr ([user1], (hydrate user1)\<lparr>password := None\<rparr>)
   \<and> verifyRefreshToken demo_jwt env0 [user1] 2000
        (request0\<lparr>body_refreshToken := Some user1_refresh_token\<rparr>)
       = deny 401 ''Invalid refresh token''"
proof -
  let ?req = "request0\<lparr>body_refreshToken := Some user1_refresh_token\<rparr>"
  let ?dec = "stamp \<lparr>claim_id = ObjectId ''u1'', claim_email = None, claim_role = None\<rparr> 1000 605800"
  let ?u = "(hydrate user1_logged_in)\<lparr>password := None\<rparr>"
  let ?u' = "(hydrate user1)\<lparr>password := None, modifiedPaths := [''refreshTokens'']\<rparr>"
  have b: "body_refreshToken ?req = Some user1_refresh_token" by simp
  have ne: "user1_refresh_token \<noteq> []"
    by (simp add: user1_refresh_token_def demo_token_nonempty)
  have v: "jwt_verify demo_jwt user1_refresh_token (Some (refresh_secret env0)) 2000 = Inr ?dec"
    by (simp add: demo_jwt_def env0_def refresh_secret_def user1_refresh_token_def
          demo_verify_token)
  have f: "findById [user1_logged_in] (claim_id ?dec) = Inr (Some ?u)"
    by (simp add: findById_def stamp_def user1_logged_in_def user1_def)
  have f1: "findById [user1_logged_in] (ObjectId ''u1'') = Inr (Some ?u)"
    using f by (simp add: stamp_def)
  have ts: "refreshTokens ?u = Some [\<lparr>token = user1_refresh_token, createdAt = 1000\<rparr>]"
    by (simp add: user1_logged_in_def)
  have r: "removeRefreshToken user1_refresh_token ?u = Inr ?u'"
    by (simp add: removeRefreshToken_def user1_logged_in_def hydrate_def user1_def
          markModified_def isModified_def)
  have s: "save demo_bcrypt [user1_logged_in] ?u' = Inr ([user1], (hydrate user1)\<lparr>password := None\<rparr>)"
    by (simp add: save_def pre_save_def isModified_def apply_delta_def user1_logged_in_def
          hydrate_def user1_def)
  note t = refresh_requires_stored_token [OF b ne v f ts, of demo_bcrypt]
  have n: "verifyRefreshToken demo_jwt env0 [user1_logged_in] 2000 ?req
             = Next (?req\<lparr>req_user := Some ?u, req_refreshToken := Some user1_refresh_token\<rparr>)"
    using t by simp
  have d: "verifyRefreshToken demo_jwt env0 [user1] 2000 ?req = deny 401 ''Invalid refresh token''"
    using t r s by blast
  from b ne v f1 n r s d show ?thesis by simp
qed

section \<open>The pre-save hook\<close>

text \<open>
  Claim C8. A save of a document whose \<open>password\<close> path is not modified skips the hash:
  the hook returns the document as it is and the save leaves every stored password as it
  was, whichever other paths it writes. A save of a document whose \<open>password\<close> path is
  modified replaces the password by the bcrypt hash of it under a fresh salt of cost 12
  and stores that hash.
\<close>
theorem password_rehashed_iff_modified:
  "(\<not> isModified ''password'' d \<longrightarrow>
      pre_save B d = Inr d
      \<and> (\<forall>db db' d'. save B db d = Inr (db', d') \<longrightarrow>
            map password db' = map password db \<and> password d' = password d))
   \<and> (isModified ''password'' d \<longrightarrow>
        (\<forall>plain salt h. password d = Some plain \<longrightarrow> bcrypt_genSalt B 12 = Inr salt \<longrightarrow>
            bcrypt_hash B plain salt = Inr h \<longrightarrow>
            pre_save B d = Inr (d\<lparr>password := Some h\<rparr>)
            \<and> (\<forall>db s. find (\<lambda>x. uid x = uid d) db = Some s \<longrightarrow>
                  (\<exists>db'. save B db d = Inr (db', d\<lparr>password := Some h, modifiedPaths := []\<rparr>)
                         \<and> map_option password (find (\<lambda>x. uid x = uid d) db') = Some (Some h)))))"
proof (intro conjI impI allI)
  assume n: "\<not> isModified ''password'' d"
  show p: "pre_save B d = Inr d" using n by (simp add: pre_save_def)
  fix db db' d'
  assume s: "save B db d = Inr (db', d')"
  from s p have u: "updateOne (uid d) (apply_delta d) db = Some db'"
    and d': "d' = d\<lparr>modifiedPaths := []\<rparr>"
    by (auto simp: save_def split: option.splits)
  have "\<And>x. password (apply_delta d x) = password x"
    using n by (simp add: apply_delta_def)
  from updateOne_map [OF u, of password, OF this]
  show "map password db' = map password db" .
  show "password d' = password d" using d' by simp
next
  fix plain salt h
  assume m: "isModified ''password'' d" and pw: "password d = Some plain"
    and g: "bcrypt_genSalt B 12 = Inr salt" and hh: "bcrypt_hash B plain salt = Inr h"
  show p: "pre_save B d = Inr (d\<lparr>password := Some h\<rparr>)"
    using m pw g hh by (simp add: pre_save_def)
  fix db :: collection and s :: user
  assume f: "find (\<lambda>x. uid x = uid d) db = Some s"
  then have "updateOne (uid d) (apply_delta (d\<lparr>password := Some h\<rparr>)) db \<noteq> None"
    by (simp add: updateOne_None_iff)
  then obtain db' where
    u: "updateOne (uid d) (apply_delta (d\<lparr>password := Some h\<rparr>)) db = Some db'" by blast
  have sv: "save B db d = Inr (db', d\<lparr>password := Some h, modifiedPaths := []\<rparr>)"
    using p u by (simp add: save_def)
  have "find (\<lambda>x. uid x = uid d) db' = Some (apply_delta (d\<lparr>password := Some h\<rparr>) s)"
    using updateOne_find_same [OF u] f by simp
  moreover have "password (apply_delta (d\<lparr>password := Some h\<rparr>) s) = Some h"
    using m by (simp add: apply_delta_def isModified_def)
  ultimately have "map_option password (find (\<lambda>x. uid x = uid d) db') = Some (Some h)"
    by simp
  with sv show "\<exists>db'. save B db d = Inr (db', d\<lparr>password := Some h, modifiedPaths := []\<rparr>)
                  \<and> map_option password (find (\<lambda>x. uid x = uid d) db') = Some (Some h)"
    by blast
qed

theorem password_rehashed_iff_modified_witness:
  "\<not> isModified ''password'' ((hydrate user1)\<lparr>lastLogin := 2000, modifiedPaths := [''lastLogin'']\<rparr>)
   \<and> save demo_bcrypt [user1]
        ((hydrate user1)\<lparr>lastLogin := 2000, modifiedPaths := [''lastLogin'']\<rparr>)
       = Inr ([user1\<lparr>lastLogin := 2000\<rparr>], (hydrate user1)\<lparr>lastLogin := 2000\<rparr>)
   \<and> map password [user1\<lparr>lastLogin := 2000\<rparr>] = map password [user1]
   \<and> isModified ''password''
        ((hydrate user1)\<lparr>password := Some ''Changed1!'', modifiedPaths := [''password'']\<rparr>)
   \<and> pre_save demo_bcrypt
        ((hydrate user1)\<lparr>password := Some ''Changed1!'', modifiedPaths := [''password'']\<rparr>)
       = Inr ((hydrate user1)\<lparr>password := Some ''$2a$12$saltChanged1!'',
                               modifiedPaths := [''password'']\<rparr>)"
proof -
  let ?d = "(hydrate user1)\<lparr>lastLogin := 2000, modifiedPaths := [''lastLogin'']\<rparr>"
  let ?c = "(hydrate user1)\<lparr>password := Some ''Changed1!'', modifiedPaths := [''password'']\<rparr>"
  have n: "\<not> isModified ''password'' ?d" by (simp add: isModified_def)
  have s: "save demo_bcrypt [user1] ?d
             = Inr ([user1\<lparr>lastLogin := 2000\<rparr>], (hydrate user1)\<lparr>lastLogin := 2000\<rparr>)"
    by (simp add: save_def pre_save_def isModified_def apply_delta_def hydrate_def user1_def)
  have m: "isModified ''password'' ?c" by (simp add: isModified_def)
  have pw: "password ?c = Some ''Changed1!''" by simp
  have g: "bcrypt_genSalt demo_bcrypt 12 = Inr ''$2a$12$salt''" by (simp add: demo_bcrypt_def)
  have h: "bcrypt_hash demo_bcrypt ''Changed1!'' ''$2a$12$salt'' = Inr ''$2a$12$saltChanged1!''"
    by (simp add: demo_bcrypt_def)
  note t1 = password_rehashed_iff_modified [of ?d demo_bcrypt, THEN conjunct1, rule_format, OF n]
  note t2 = password_rehashed_iff_modified [of ?c demo_bcrypt, THEN conjunct2, rule_format,
              OF m pw g h]
  have a: "map password [user1\<lparr>lastLogin := 2000\<rparr>] = map password [user1]"
    using t1 s by blast
  have b: "pre_save demo_bcrypt ?c
             = Inr ((hydrate user1)\<lparr>password := Some ''$2a$12$saltChanged1!'',
                                     modifiedPaths := [''password'']\<rparr>)"
    using t2 by (simp add: hydrate_def)
  from n s a m b show ?thesis by blast
qed

section \<open>findByCredentials\<close>

text \<open>
  Claim C4. In a collection with unique emails and ids, \<open>findByCredentials\<close> returns a
  user exactly when an active user with the given email is stored and
  \<^verbatim>\<open>bcrypt.compare\<close> accepts the password against its stored hash. When no user has
  the email, when the user with the email is inactive, and when the password does not
  match, it throws the same error \<^verbatim>\<open>Invalid login credentials\<close>. On success it
  returns the user with \<open>lastLogin\<close> set to the current time and has saved that change
  to the stored user, leaving every other stored user as it was. The email argument is
  the query value after the schema's casting.
\<close>
theorem findByCredentials_generic_failure:
  assumes "distinct (map email db)" and "distinct (map uid db)"
  shows "((\<exists>d db'. findByCredentials B db now em pw = Inr (d, db'))
            = (\<exists>u\<in>set db. email u = em \<and> isActive u
                  \<and> (\<exists>h. password u = Some h \<and> bcrypt_compare B pw h)))
         \<and> ((\<forall>u\<in>set db. email u \<noteq> em) \<longrightarrow>
               findByCredentials B db now em pw
                 = Inl (JsError ''Error'' ''Invalid login credentials''))
         \<and> (\<forall>u\<in>set db. email u = em \<longrightarrow> \<not> isActive u \<longrightarrow>
               findByCredentials B db now em pw
                 = Inl (JsError ''Error'' ''Invalid login credentials''))
         \<and> (\<forall>u\<in>set db. \<forall>h. email u = em \<longrightarrow> isActive u \<longrightarrow> password u = Some h \<longrightarrow>
               \<not> bcrypt_compare B pw h \<longrightarrow>
               findByCredentials B db now em pw
                 = Inl (JsError ''Error'' ''Invalid login credentials''))
         \<and> (\<forall>u\<in>set db. \<forall>h. email u = em \<longrightarrow> isActive u \<longrightarrow> password u = Some h \<longrightarrow>
               bcrypt_compare B pw h \<longrightarrow>
               findByCredentials B db now em pw
                 = Inr ((hydrate u)\<lparr>lastLogin := now\<rparr>,
                        map (\<lambda>x. if uid x = uid u then x\<lparr>lastLogin := now\<rparr> else x) db))"
proof -
  have none: "findByCredentials B db now em pw = Inl (JsError ''Error'' ''Invalid login credentials'')"
    if "find (\<lambda>x. email x = em \<and> isActive x) db = None"
    using that
    by (simp add: findByCredentials_def findOne_email_active_plus_password_def invalid_login_def)
  have found: "find (\<lambda>x. email x = em \<and> isActive x) db = Some u"
    if "u \<in> set db" "email u = em" "isActive u" for u
    using find_distinct_key [OF assms(1) that(1), of isActive] that(2,3) by simp
  have mism: "findByCredentials B db now em pw = Inl (JsError ''Error'' ''Invalid login credentials'')"
    if "u \<in> set db" "email u = em" "isActive u" "password u = Some h" "\<not> bcrypt_compare B pw h"
    for u h
    using found [OF that(1,2,3)] that(4,5)
    by (simp add: findByCredentials_def findOne_email_active_plus_password_def invalid_login_def
          comparePassword_def)
  have ok: "findByCredentials B db now em pw
              = Inr ((hydrate u)\<lparr>lastLogin := now\<rparr>,
                     map (\<lambda>x. if uid x = uid u then x\<lparr>lastLogin := now\<rparr> else x) db)"
    if u: "u \<in> set db" "email u = em" "isActive u" "password u = Some h" "bcrypt_compare B pw h"
    for u h
  proof -
    define d where "d = (if lastLogin u = now then hydrate u
                         else markModified ''lastLogin'' ((hydrate u)\<lparr>lastLogin := now\<rparr>))"
    have ud: "uid d = uid u" by (simp add: d_def markModified_def)
    have np: "\<not> isModified ''password'' d" by (simp add: d_def markModified_def isModified_def)
    have fu: "find (\<lambda>x. uid x = uid d) db = Some u"
      using find_distinct_uid [OF assms(2) u(1)] ud by simp
    from save_loaded [OF np fu, of B] obtain db' where
      sv: "save B db d = Inr (db', d\<lparr>modifiedPaths := []\<rparr>)" and
      up: "updateOne (uid d) (apply_delta d) db = Some db'" by blast
    have db': "db' = map (\<lambda>x. if uid x = uid u then apply_delta d x else x) db"
      using updateOne_distinct [OF assms(2) up] ud by simp
    have ad: "apply_delta d u = u\<lparr>lastLogin := now\<rparr>"
      by (simp add: d_def apply_delta_def markModified_def isModified_def)
    have "map (\<lambda>x. if uid x = uid u then apply_delta d x else x) db
            = map (\<lambda>x. if uid x = uid u then x\<lparr>lastLogin := now\<rparr> else x) db"
    proof (rule map_cong [OF refl])
      fix x assume "x \<in> set db"
      then show "(if uid x = uid u then apply_delta d x else x)
                   = (if uid x = uid u then x\<lparr>lastLogin := now\<rparr> else x)"
        using distinct_uid_eq [OF assms(2) u(1)] ad by auto
    qed
    with db' have db'': "db' = map (\<lambda>x. if uid x = uid u then x\<lparr>lastLogin := now\<rparr> else x) db"
      by simp
    have dd: "d\<lparr>modifiedPaths := []\<rparr> = (hydrate u)\<lparr>lastLogin := now\<rparr>"
      by (simp add: d_def markModified_def hydrate_def)
    show ?thesis
      using found [OF u(1,2,3)] u(4,5) sv db'' dd
      by (simp add: findByCredentials_def findOne_email_active_plus_password_def
            comparePassword_def d_def Let_def)
  qed
  have iff: "(\<exists>d db'. findByCredentials B db now em pw = Inr (d, db'))
            = (\<exists>u\<in>set db. email u = em \<and> isActive u
                  \<and> (\<exists>h. password u = Some h \<and> bcrypt_compare B pw h))"
  proof
    assume "\<exists>d db'. findByCredentials B db now em pw = Inr (d, db')"
    then obtain d db' where r: "findByCredentials B db now em pw = Inr (d, db')" by blast
    then obtain u where f: "find (\<lambda>x. email x = em \<and> isActive x) db = Some u"
      by (cases "find (\<lambda>x. email x = em \<and> isActive x) db")
         (simp_all add: findByCredentials_def findOne_email_active_plus_password_def)
    then have m: "u \<in> set db" "email u = em" "isActive u" by (auto simp: find_Some_iff)
    from r f obtain h where "password u = Some h" "bcrypt_compare B pw h"
      by (cases "password u"; cases "bcrypt_compare B pw (the (password u))")
         (simp_all add: findByCredentials_def findOne_email_active_plus_password_def
            comparePassword_def)
    with m show "\<exists>u\<in>set db. email u = em \<and> isActive u
                  \<and> (\<exists>h. password u = Some h \<and> bcrypt_compare B pw h)" by blast
  next
    assume "\<exists>u\<in>set db. email u = em \<and> isActive u
                  \<and> (\<exists>h. password u = Some h \<and> bcrypt_compare B pw h)"
    then obtain u h where "u \<in> set db" "email u = em" "isActive u" "password u = Some h"
      "bcrypt_compare B pw h" by blast
    from ok [OF this] show "\<exists>d db'. findByCredentials B db now em pw = Inr (d, db')" by blast
  qed
  have absent: "findByCredentials B db now em pw = Inl (JsError ''Error'' ''Invalid login credentials'')"
    if "\<forall>u\<in>set db. email u \<noteq> em"
  proof -
    from that have "find (\<lambda>x. email x = em \<and> isActive x) db = None"
      by (auto simp: find_None_iff)
    then show ?thesis by (rule none)
  qed
  have inactive: "findByCredentials B db now em pw = Inl (JsError ''Error'' ''Invalid login credentials'')"
    if "u \<in> set db" "email u = em" "\<not> isActive u" for u
  proof -
    have "\<And>x. x \<in> set db \<Longrightarrow> email x = em \<Longrightarrow> x = u"
      using distinct_key_eq [OF assms(1) that(1)] that(2) by simp
    with that(3) have "find (\<lambda>x. email x = em \<and> isActive x) db = None"
      by (auto simp: find_None_iff)
    then show ?thesis by (rule none)
  qed
  from iff absent inactive mism ok show ?thesis by blast
qed

theorem findByCredentials_generic_failure_witness:
  "distinct (map email [admin0, user1]) \<and> distinct (map uid [admin0, user1])
   \<and> findByCredentials demo_bcrypt [admin0, user1] 2000 ''user1@blogsite.com'' ''User123!''
       = Inr ((hydrate user1)\<lparr>lastLogin := 2000\<rparr>, [admin0, user1\<lparr>lastLogin := 2000\<rparr>])
   \<and> findByCredentials demo_bcrypt [admin0, user1] 2000 ''user1@blogsite.com'' ''Admin123!''
       = Inl (JsError ''Error'' ''Invalid login credentials'')
   \<and> findByCredentials demo_bcrypt [admin0, user1] 2000 ''user9@blogsite.com'' ''User123!''
       = Inl (JsError ''Error'' ''Invalid login credentials'')"
proof -
  have e: "distinct (map email [admin0, user1])" by (simp add: admin0_def user1_def)
  have i: "distinct (map uid [admin0, user1])" by (simp add: admin0_def user1_def)
  have m: "user1 \<in> set [admin0, user1]" by simp
  have f: "email user1 = ''user1@blogsite.com''" "isActive user1"
    "password user1 = Some ''$2a$12$saltUser123!''" "uid user1 = ''u1''" "uid admin0 = ''a1''"
    by (simp_all add: user1_def admin0_def)
  have c1: "bcrypt_compare demo_bcrypt ''User123!'' ''$2a$12$saltUser123!''"
    by (simp add: demo_bcrypt_def)
  have c2: "\<not> bcrypt_compare demo_bcrypt ''Admin123!'' ''$2a$12$saltUser123!''"
    by (simp add: demo_bcrypt_def)
  have n: "\<forall>u\<in>set [admin0, user1]. email u \<noteq> ''user9@blogsite.com''"
    by (simp add: admin0_def user1_def)
  note t = findByCredentials_generic_failure [OF e i, of demo_bcrypt 2000]
  have a: "findByCredentials demo_bcrypt [admin0, user1] 2000 ''user1@blogsite.com'' ''User123!''
       = Inr ((hydrate user1)\<lparr>lastLogin := 2000\<rparr>, [admin0, user1\<lparr>lastLogin := 2000\<rparr>])"
    using t [of "''user1@blogsite.com''" "''User123!''", THEN conjunct2, THEN conjunct2,
             THEN conjunct2, THEN conjunct2, rule_format, OF m f(1) f(2) f(3) c1]
    by (simp add: f)
  have b: "findByCredentials demo_bcrypt [admin0, user1] 2000 ''user1@blogsite.com'' ''Admin123!''
       = Inl (JsError ''Error'' ''Invalid login credentials'')"
    using t [of "''user1@blogsite.com''" "''Admin123!''", THEN conjunct2, THEN conjunct2,
             THEN conjunct2, THEN conjunct1, rule_format, OF m f(1) f(2) f(3) c2] .
  have c: "findByCredentials demo_bcrypt [admin0, user1] 2000 ''user9@blogsite.com'' ''User123!''
       = Inl (JsError ''Error'' ''Invalid login credentials'')"
    using t [of "''user9@blogsite.com''" "''User123!''", THEN conjunct2, THEN conjunct1] n
    by blast
  from e i a b c show ?thesis by blast
qed

section \<open>Issuing a refresh token\<close>

text \<open>
  Claim C7, as stated: \<open>generateRefreshToken\<close> ends by persisting the user. The method
  has no access to the collection and calls no save: after it has issued a token for
  \<open>user1\<close>, the new entry is a pending modification of the document in memory, the
  stored user still has an empty \<open>refreshTokens\<close>, and the refresh flow run against the
  collection rejects the token just issued.
\<close>
theorem refresh_token_not_persisted_counterexample:
  "generateRefreshToken demo_jwt env0 1000 (hydrate user1)
     = Inr (user1_refresh_token,
            (hydrate user1)\<lparr>refreshTokens :=
                               Some [\<lparr>token = user1_refresh_token, createdAt = 1000\<rparr>],
                             modifiedPaths := [''refreshTokens'']\<rparr>)
   \<and> findById [user1] (ObjectId ''u1'') = Inr (Some ((hydrate user1)\<lparr>password := None\<rparr>))
   \<and> refreshTokens user1 = Some []
   \<and> verifyRefreshToken demo_jwt env0 [user1] 1000
        (request0\<lparr>body_refreshToken := Some user1_refresh_token\<rparr>)
       = deny 401 ''Invalid refresh token''"
proof -
  have g: "generateRefreshToken demo_jwt env0 1000 (hydrate user1)
     = Inr (user1_refresh_token,
            (hydrate user1)\<lparr>refreshTokens :=
                               Some [\<lparr>token = user1_refresh_token, createdAt = 1000\<rparr>],
                             modifiedPaths := [''refreshTokens'']\<rparr>)"
    by (simp add: generateRefreshToken_def demo_jwt_def demo_sign_def env0_def refresh_secret_def
          seven_days_def user1_refresh_token_def markModified_def isModified_def
          hydrate_def user1_def)
  have f: "findById [user1] (ObjectId ''u1'') = Inr (Some ((hydrate user1)\<lparr>password := None\<rparr>))"
    by (simp add: findById_def user1_def)
  have r: "refreshTokens user1 = Some []" by (simp add: user1_def)
  have ne: "user1_refresh_token \<noteq> []"
    by (simp add: user1_refresh_token_def demo_token_nonempty)
  have v: "jwt_verify demo_jwt user1_refresh_token (Some (refresh_secret env0)) 1000
             = Inr (stamp \<lparr>claim_id = ObjectId ''u1'', claim_email = None, claim_role = None\<rparr> 1000 605800)"
    by (simp add: demo_jwt_def env0_def refresh_secret_def user1_refresh_token_def
          demo_verify_token)
  have d: "verifyRefreshToken demo_jwt env0 [user1] 1000
        (request0\<lparr>body_refreshToken := Some user1_refresh_token\<rparr>)
       = deny 401 ''Invalid refresh token''"
    by (subst verifyRefreshToken_present [where tok = user1_refresh_token])
       (simp_all add: ne v stamp_def f r)
  from g f r d show ?thesis by blast
qed

text \<open>
  Claim C7, amended. \<open>generateRefreshToken\<close> signs a payload holding only the user's id
  with the derived secret (the primary secret followed by \<^verbatim>\<open>refresh\<close>) and a lifetime
  of seven days (604800 seconds), and appends the token with its creation time to the
  \<open>refreshTokens\<close> of the document in memory, which it marks modified. It does not
  persist: the stored user holds the new entry once the caller saves the document.
\<close>

theorem generateRefreshToken_appends_in_memory:
  assumes "jwt_contract J" and "refreshTokens d = Some ts"
  shows "\<exists>tok d'.
           jwt_sign J \<lparr>claim_id = ObjectId (uid d), claim_email = None, claim_role = None\<rparr>
             (Some (refresh_secret e)) 604800 t0 = Inr tok
         \<and> (\<forall>k. JWT_SECRET e = Some k \<longrightarrow> refresh_secret e = k @ ''refresh'')
         \<and> generateRefreshToken J e t0 d = Inr (tok, d')
         \<and> d' = markModified ''refreshTokens''
                  (d\<lparr>refreshTokens := Some (ts @ [\<lparr>token = tok, createdAt = t0\<rparr>])\<rparr>)
         \<and> isModified ''refreshTokens'' d'
         \<and> (\<forall>now. now < t0 + 604800 \<longrightarrow>
               jwt_verify J tok (Some (refresh_secret e)) now
                 = Inr \<lparr>claim_id = ObjectId (uid d), claim_email = None, claim_role = None,
                        iat = t0, exp = t0 + 604800\<rparr>)
         \<and> (\<forall>now. t0 + 604800 \<le> now \<longrightarrow>
               (\<exists>msg. jwt_verify J tok (Some (refresh_secret e)) now
                        = Inl (JsError ''TokenExpiredError'' msg)))
         \<and> (\<forall>B db s. find (\<lambda>x. uid x = uid d) db = Some s \<longrightarrow> \<not> isModified ''password'' d \<longrightarrow>
               (\<exists>db'. save B db d' = Inr (db', d'\<lparr>modifiedPaths := []\<rparr>)
                  \<and> map_option refreshTokens (find (\<lambda>x. uid x = uid d) db')
                      = Some (Some (ts @ [\<lparr>token = tok, createdAt = t0\<rparr>]))))"
proof -
  define p where "p = \<lparr>claim_id = ObjectId (uid d), claim_email = None, claim_role = None\<rparr>"
  define k where "k = refresh_secret e"
  have kne: "k \<noteq> []" by (simp add: k_def refresh_secret_def)
  from jwt_contract_sign [OF assms(1) kne] obtain tok where
    s: "jwt_sign J p (Some k) 604800 t0 = Inr tok" by blast
  define d' where "d' = markModified ''refreshTokens''
                  (d\<lparr>refreshTokens := Some (ts @ [\<lparr>token = tok, createdAt = t0\<rparr>])\<rparr>)"
  have g: "generateRefreshToken J e t0 d = Inr (tok, d')"
    using s assms(2) by (simp add: generateRefreshToken_def p_def k_def d'_def seven_days_def)
  have m: "isModified ''refreshTokens'' d'"
    by (simp add: d'_def markModified_def isModified_def)
  have rt: "refreshTokens d' = Some (ts @ [\<lparr>token = tok, createdAt = t0\<rparr>])"
    by (simp add: d'_def markModified_def)
  have ud: "uid d' = uid d" by (simp add: d'_def markModified_def)
  have sec: "\<forall>k'. JWT_SECRET e = Some k' \<longrightarrow> refresh_secret e = k' @ ''refresh''"
    by (simp add: refresh_secret_def)
  have v1: "\<forall>now. now < t0 + 604800 \<longrightarrow>
               jwt_verify J tok (Some k) now
                 = Inr \<lparr>claim_id = ObjectId (uid d), claim_email = None, claim_role = None,
                        iat = t0, exp = t0 + 604800\<rparr>"
    using jwt_contract_valid [OF assms(1) kne s] by (simp add: stamp_def p_def)
  have v2: "\<forall>now. t0 + 604800 \<le> now \<longrightarrow>
               (\<exists>msg. jwt_verify J tok (Some k) now = Inl (JsError ''TokenExpiredError'' msg))"
    using jwt_contract_expired [OF assms(1) kne s] by blast
  have sv: "\<exists>db'. save B db d' = Inr (db', d'\<lparr>modifiedPaths := []\<rparr>)
                  \<and> map_option refreshTokens (find (\<lambda>x. uid x = uid d) db')
                      = Some (Some (ts @ [\<lparr>token = tok, createdAt = t0\<rparr>]))"
    if f: "find (\<lambda>x. uid x = uid d) db = Some s" and np: "\<not> isModified ''password'' d"
    for B and db :: collection and s :: user
  proof -
    have np': "\<not> isModified ''password'' d'"
      using np by (simp add: d'_def markModified_def isModified_def)
    have f': "find (\<lambda>x. uid x = uid d') db = Some s" using f ud by simp
    from save_loaded_find [OF np' f', of B] obtain db' where
      a: "save B db d' = Inr (db', d'\<lparr>modifiedPaths := []\<rparr>)" and
      b: "find (\<lambda>x. uid x = uid d') db' = Some (apply_delta d' s)" by blast
    have "refreshTokens (apply_delta d' s) = Some (ts @ [\<lparr>token = tok, createdAt = t0\<rparr>])"
      using m rt by (simp add: apply_delta_def)
    with a b ud show ?thesis by simp
  qed
  have dd: "d' = markModified ''refreshTokens''
                  (d\<lparr>refreshTokens := Some (ts @ [\<lparr>token = tok, createdAt = t0\<rparr>])\<rparr>)"
    by (simp add: d'_def)
  have sv': "\<forall>B db s. find (\<lambda>x. uid x = uid d) db = Some s \<longrightarrow> \<not> isModified ''password'' d \<longrightarrow>
               (\<exists>db'. save B db d' = Inr (db', d'\<lparr>modifiedPaths := []\<rparr>)
                  \<and> map_option refreshTokens (find (\<lambda>x. uid x = uid d) db')
                      = Some (Some (ts @ [\<lparr>token = tok, createdAt = t0\<rparr>])))"
    using sv by blast
  show ?thesis
    using s sec g dd m v1 v2 sv' unfolding p_def k_def
    by (intro exI [of _ tok] exI [of _ d']) (intro conjI; assumption)
qed

theorem generateRefreshToken_appends_in_memory_witness:
  "jwt_contract demo_jwt \<and> refreshTokens (hydrate user1) = Some []
   \<and> (\<exists>tok d'. generateRefreshToken demo_jwt env0 1000 (hydrate user1) = Inr (tok, d')
          \<and> refreshTokens d' = Some [\<lparr>token = tok, createdAt = 1000\<rparr>]
          \<and> isModified ''refreshTokens'' d')"
proof -
  have c: "jwt_contract demo_jwt" by (rule demo_jwt_contract)
  have r: "refreshTokens (hydrate user1) = Some []" by (simp add: user1_def)
  from generateRefreshToken_appends_in_memory [OF c r, of env0 1000] obtain tok d' where
    g: "generateRefreshToken demo_jwt env0 1000 (hydrate user1) = Inr (tok, d')" and
    d: "d' = markModified ''refreshTokens''
               ((hydrate user1)\<lparr>refreshTokens := Some ([] @ [\<lparr>token = tok, createdAt = 1000\<rparr>])\<rparr>)" and
    m: "isModified ''refreshTokens'' d'"
    by blast
  have "refreshTokens d' = Some [\<lparr>token = tok, createdAt = 1000\<rparr>]"
    using d by (simp add: markModified_def)
  with c r g m show ?thesis by blast
qed

section \<open>Deactivation clears the refresh tokens\<close>

text \<open>
  Claim C10. When a request passes \<open>auth\<close> and \<open>adminAuth\<close> and names a stored user other
  than the caller: with \<^verbatim>\<open>isActive: false\<close> the route answers 200 and leaves that
  user stored inactive with an empty \<open>refreshTokens\<close>, so that afterwards every refresh
  token that verifies for that user's id is answered 401 \<^verbatim>\<open>Invalid refresh token\<close> by
  \<open>verifyRefreshToken\<close>; with \<^verbatim>\<open>isActive: true\<close> it answers 200, stores the user
  active and leaves every stored \<open>refreshTokens\<close> unchanged.
\<close>
theorem deactivation_clears_refresh_tokens:
  assumes "auth J e db now req = Next req1" and "adminAuth req1 = Next req2"
    and "req_user req2 = Some me" and "params_id req = ObjectId i" and "uid me \<noteq> i"
    and "find (\<lambda>x. uid x = i) db = Some s"
  shows "(body_isActive req = Some False \<longrightarrow>
           (\<exists>r db'. put_status J B e db now req = (r, db') \<and> status r = 200
              \<and> find (\<lambda>x. uid x = i) db'
                  = Some (s\<lparr>isActive := False, refreshTokens := Some []\<rparr>)
              \<and> (\<forall>J' e' now' rq tok dec.
                    body_refreshToken rq = Some tok \<longrightarrow> tok \<noteq> [] \<longrightarrow>
                    jwt_verify J' tok (Some (refresh_secret e')) now' = Inr dec \<longrightarrow>
                    claim_id dec = params_id req \<longrightarrow>
                    verifyRefreshToken J' e' db' now' rq = deny 401 ''Invalid refresh token'')))
       \<and> (body_isActive req = Some True \<longrightarrow>
           (\<exists>r db'. put_status J B e db now req = (r, db') \<and> status r = 200
              \<and> find (\<lambda>x. uid x = i) db' = Some (s\<lparr>isActive := True\<rparr>)
              \<and> map refreshTokens db' = map refreshTokens db))"
proof -
  from auth_NextD [OF assms(1)] obtain a where r1: "req1 = req\<lparr>req_user := Some a\<rparr>" by blast
  have r2: "req2 = req1" by (rule adminAuth_NextD [OF assms(2)])
  have chain: "put_status J B e db now req = put_status_handler B db req2"
    using assms(1,2) by (simp add: put_status_def)
  have p: "params_id req2 = params_id req" and bi: "body_isActive req2 = body_isActive req"
    using r1 r2 by simp_all
  have p2: "params_id req2 = ObjectId i" using assms(4) p by simp
  have deact: "\<exists>r db'. put_status J B e db now req = (r, db') \<and> status r = 200
              \<and> find (\<lambda>x. uid x = i) db'
                  = Some (s\<lparr>isActive := False, refreshTokens := Some []\<rparr>)
              \<and> (\<forall>J' e' now' rq tok dec.
                    body_refreshToken rq = Some tok \<longrightarrow> tok \<noteq> [] \<longrightarrow>
                    jwt_verify J' tok (Some (refresh_secret e')) now' = Inr dec \<longrightarrow>
                    claim_id dec = params_id req \<longrightarrow>
                    verifyRefreshToken J' e' db' now' rq = deny 401 ''Invalid refresh token'')"
    if b: "body_isActive req = Some False"
  proof -
    from b bi have b2: "body_isActive req2 = Some False" by simp
    from put_status_handler_ok [OF assms(3) assms(5) p2 assms(6) b2, of B] obtain r db' d where
      h: "put_status_handler B db req2 = (r, db')" and st: "status r = 200" and
      up: "updateOne i (apply_delta d) db = Some db'" and
      ad: "apply_delta d s = s\<lparr>isActive := False, refreshTokens := Some []\<rparr>"
      by auto
    have f': "find (\<lambda>x. uid x = i) db'
                = Some (s\<lparr>isActive := False, refreshTokens := Some []\<rparr>)"
      using updateOne_find_same [OF up] assms(6) ad by simp
    have rej: "verifyRefreshToken J' e' db' now' rq = deny 401 ''Invalid refresh token''"
      if "body_refreshToken rq = Some tok" "tok \<noteq> []"
        "jwt_verify J' tok (Some (refresh_secret e')) now' = Inr dec"
        "claim_id dec = params_id req"
      for J' e' now' rq tok dec
      unfolding verifyRefreshToken_present [OF that(1,2)]
      using that(3,4) findById_first [OF f'] assms(4) by simp
    from chain h st f' rej show ?thesis by auto
  qed
  have act: "\<exists>r db'. put_status J B e db now req = (r, db') \<and> status r = 200
              \<and> find (\<lambda>x. uid x = i) db' = Some (s\<lparr>isActive := True\<rparr>)
              \<and> map refreshTokens db' = map refreshTokens db"
    if b: "body_isActive req = Some True"
  proof -
    from b bi have b2: "body_isActive req2 = Some True" by simp
    from put_status_handler_ok [OF assms(3) assms(5) p2 assms(6) b2, of B] obtain r db' d where
      h: "put_status_handler B db req2 = (r, db')" and st: "status r = 200" and
      up: "updateOne i (apply_delta d) db = Some db'" and
      ad: "apply_delta d s = s\<lparr>isActive := True\<rparr>" and
      nm: "\<not> isModified ''refreshTokens'' d"
      by auto
    have f': "find (\<lambda>x. uid x = i) db' = Some (s\<lparr>isActive := True\<rparr>)"
      using updateOne_find_same [OF up] assms(6) ad by simp
    have "\<And>x. refreshTokens (apply_delta d x) = refreshTokens x"
      using nm by (simp add: apply_delta_def)
    from updateOne_map [OF up, of refreshTokens, OF this]
    have "map refreshTokens db' = map refreshTokens db" .
    with chain h st f' show ?thesis by auto
  qed
  from deact act show ?thesis by blast
qed

theorem deactivation_clears_refresh_tokens_witness:
  "auth demo_jwt env0 [admin0, user1_logged_in] 2000 deactivate_user1
     = Next (deactivate_user1\<lparr>req_user := Some admin0_attached\<rparr>)
   \<and> adminAuth (deactivate_user1\<lparr>req_user := Some admin0_attached\<rparr>)
       = Next (deactivate_user1\<lparr>req_user := Some admin0_attached\<rparr>)
   \<and> params_id deactivate_user1 = ObjectId ''u1''
   \<and> uid admin0_attached \<noteq> ''u1''
   \<and> find (\<lambda>x. uid x = ''u1'') [admin0, user1_logged_in] = Some user1_logged_in
   \<and> body_isActive deactivate_user1 = Some False
   \<and> (\<exists>r db'. put_status demo_jwt demo_bcrypt env0 [admin0, user1_logged_in] 2000
                    deactivate_user1 = (r, db')
          \<and> status r = 200
          \<and> find (\<lambda>x. uid x = ''u1'') db' = Some (user1\<lparr>isActive := False\<rparr>)
          \<and> verifyRefreshToken demo_jwt env0 db' 2000
                (request0\<lparr>body_refreshToken := Some user1_refresh_token\<rparr>)
              = deny 401 ''Invalid refresh token'')"
proof -
  let ?db = "[admin0, user1_logged_in]"
  let ?req1 = "deactivate_user1\<lparr>req_user := Some admin0_attached\<rparr>"
  let ?rq = "request0\<lparr>body_refreshToken := Some user1_refresh_token\<rparr>"
  have hdr: "header_Authorization deactivate_user1 = Some (''Bearer '' @ admin0_access_token)"
    by (simp add: deactivate_user1_def)
  have ne: "admin0_access_token \<noteq> []"
    by (simp add: admin0_access_token_def demo_token_nonempty)
  have v: "jwt_verify demo_jwt admin0_access_token (JWT_SECRET env0) 2000
             = Inr (stamp \<lparr>claim_id = ObjectId ''a1'', claim_email = Some ''admin@blogsite.com'',
                            claim_role = Some ''admin''\<rparr> 1000 605800)"
    by (simp add: demo_jwt_def env0_def admin0_access_token_def demo_verify_token)
  have fa: "findById ?db (ObjectId ''a1'') = Inr (Some ((hydrate admin0)\<lparr>password := None\<rparr>))"
    by (simp add: findById_def admin0_def)
  have act: "isActive admin0" and rol: "role admin0 = ''admin''" and ida: "uid admin0 = ''a1''"
    by (simp_all add: admin0_def)
  have a: "auth demo_jwt env0 ?db 2000 deactivate_user1 = Next ?req1"
    unfolding auth_Bearer [OF hdr ne] v
    using fa act by (simp add: stamp_def admin0_attached_def)
  have b: "adminAuth ?req1 = Next ?req1"
    using rol by (simp add: adminAuth_def admin0_attached_def
                    select_minus_password_refreshTokens_def)
  have ru: "req_user ?req1 = Some admin0_attached" by simp
  have n: "uid admin0_attached \<noteq> ''u1''"
    using ida by (simp add: admin0_attached_def select_minus_password_refreshTokens_def)
  have f: "find (\<lambda>x. uid x = ''u1'') ?db = Some user1_logged_in"
    by (simp add: admin0_def user1_logged_in_def user1_def)
  have bi: "body_isActive deactivate_user1 = Some False"
    by (simp add: deactivate_user1_def)
  have p: "params_id deactivate_user1 = ObjectId ''u1''" by (simp add: deactivate_user1_def)
  have eq: "user1_logged_in\<lparr>isActive := False, refreshTokens := Some []\<rparr>
              = user1\<lparr>isActive := False\<rparr>"
    by (simp add: user1_logged_in_def user1_def)
  have tb: "body_refreshToken ?rq = Some user1_refresh_token" by simp
  have tne: "user1_refresh_token \<noteq> []"
    by (simp add: user1_refresh_token_def demo_token_nonempty)
  have tv: "jwt_verify demo_jwt user1_refresh_token (Some (refresh_secret env0)) 2000
              = Inr (stamp \<lparr>claim_id = ObjectId ''u1'', claim_email = None, claim_role = None\<rparr>
                       1000 605800)"
    by (simp add: demo_jwt_def env0_def refresh_secret_def user1_refresh_token_def
          demo_verify_token)
  have tc: "claim_id (stamp \<lparr>claim_id = ObjectId ''u1'', claim_email = None, claim_role = None\<rparr>
                       1000 605800) = params_id deactivate_user1"
    by (simp add: stamp_def p)
  from deactivation_clears_refresh_tokens [OF a b ru p n f, of demo_bcrypt, THEN conjunct1,
         rule_format, OF bi]
  obtain r db' where
    1: "put_status demo_jwt demo_bcrypt env0 ?db 2000 deactivate_user1 = (r, db')" and
    2: "status r = 200" and
    3: "find (\<lambda>x. uid x = ''u1'') db'
          = Some (user1_logged_in\<lparr>isActive := False, refreshTokens := Some []\<rparr>)" and
    4: "\<And>J' e' now' rq tok dec.
          body_refreshToken rq = Some tok \<Longrightarrow> tok \<noteq> [] \<Longrightarrow>
          jwt_verify J' tok (Some (refresh_secret e')) now' = Inr dec \<Longrightarrow>
          claim_id dec = params_id deactivate_user1 \<Longrightarrow>
          verifyRefreshToken J' e' db' now' rq = deny 401 ''Invalid refresh token''"
    by blast
  have 5: "find (\<lambda>x. uid x = ''u1'') db' = Some (user1\<lparr>isActive := False\<rparr>)"
    using 3 eq by simp
  have 6: "verifyRefreshToken demo_jwt env0 db' 2000 ?rq = deny 401 ''Invalid refresh token''"
    by (rule 4 [OF tb tne tv tc])
  from a b p n f bi 1 2 5 6 show ?thesis by blast
qed

end
